theory Spec2Isabelle
  imports Main "HOL-Library.Word" "HOL-Library.Sublist" "HOL-Library.Multiset"
begin

section \<open>JavaScript strings\<close>

text \<open>
  A JavaScript string is a sequence of UTF-16 code units; \<open>length\<close>, \<open>includes\<close>,
  \<open>replace\<close> and \<open>===\<close> all work on code units. ASCII literals of the source are
  written through \<open>ascii\<close>.
\<close>

type_synonym jsstring = "16 word list"

definition ascii :: "string \<Rightarrow> jsstring" where
  "ascii = map of_char"

text \<open>Truthiness of a value that is a string, \<open>null\<close> or \<open>undefined\<close>: only a
  non-empty string is truthy.\<close>

fun js_truthy :: "jsstring option \<Rightarrow> bool" where
  "js_truthy None = False"
| "js_truthy (Some s) = (s \<noteq> [])"

text \<open>\<open>a || b\<close> where \<open>a\<close> is a string, \<open>null\<close> or \<open>undefined\<close> and \<open>b\<close> a string.\<close>

fun js_or :: "jsstring option \<Rightarrow> jsstring \<Rightarrow> jsstring" where
  "js_or None b = b"
| "js_or (Some a) b = (if a \<noteq> [] then a else b)"

text \<open>\<open>s.includes(pat)\<close>: \<open>pat\<close> occurs in \<open>s\<close> as a contiguous run of code units.\<close>

fun str_includes :: "'a list \<Rightarrow> 'a list \<Rightarrow> bool" where
  "str_includes [] pat = (pat = [])"
| "str_includes (x # xs) pat = (prefix pat (x # xs) \<or> str_includes xs pat)"

text \<open>\<open>s.replace(pat, rep)\<close> with a string pattern: the first occurrence of \<open>pat\<close>
  (the leftmost one; the empty pattern occurs at index 0) is replaced, the rest is kept.
  The only replacement the source passes is the empty string, which has no \<open>$\<close>
  pattern to expand.\<close>

fun str_replace :: "'a list \<Rightarrow> 'a list \<Rightarrow> 'a list \<Rightarrow> 'a list" where
  "str_replace [] pat rep = (if pat = [] then rep else [])"
| "str_replace (x # xs) pat rep =
     (if prefix pat (x # xs) then rep @ drop (length pat) (x # xs)
      else x # str_replace xs pat rep)"

section \<open>GameBoard.tsx: cards\<close>

text \<open>\<open>interface Card { suit: string; rank: string }\<close>\<close>

record Card =
  suit :: jsstring
  rank :: jsstring

text \<open>
  The four suit literals of \<open>parseCard\<close>, as the source file holds them. Each is three
  code units long: U+201A, U+00F4 and then U+2022, U+00B6, U+00A3 and U+2020 for the
  first, second, third and fourth entry (the entries the option labels call Hearts,
  Diamonds, Clubs and Spades). The same four strings are the values of the suit
  selector's options.
\<close>

definition hearts :: jsstring where
  "hearts = [0x201A, 0xF4, 0x2022]"

definition diamonds :: jsstring where
  "diamonds = [0x201A, 0xF4, 0xB6]"

definition clubs :: jsstring where
  "clubs = [0x201A, 0xF4, 0xA3]"

definition spades :: jsstring where
  "spades = [0x201A, 0xF4, 0x2020]"

definition suits :: "jsstring list" where
  "suits = [hearts, diamonds, clubs, spades]"

text \<open>The thirteen ranks of the data model: A, 2 to 10, J, Q, K.\<close>

definition ranks :: "jsstring list" where
  "ranks =
     [ascii ''A'', ascii ''2'', ascii ''3'', ascii ''4'', ascii ''5'', ascii ''6'', ascii ''7'',
      ascii ''8'', ascii ''9'', ascii ''10'', ascii ''J'', ascii ''Q'', ascii ''K'']"

text \<open>The four suit symbols of the data model, hearts, diamonds, clubs and spades:
  the single code units U+2665, U+2666, U+2663 and U+2660.\<close>

definition suit_symbols :: "jsstring list" where
  "suit_symbols = [[0x2665], [0x2666], [0x2663], [0x2660]]"

text \<open>
  \<^verbatim>\<open>
  function parseCard(cardStr: string): Card {
    if (!cardStr || cardStr.length < 2) return { rank: '', suit: '' }
    const suits = [...]
    const suit = suits.find(s => cardStr.includes(s)) || ''
    const rank = cardStr.replace(suit, '')
    return { rank, suit }
  }
  \<close>
\<close>

definition parseCard :: "jsstring \<Rightarrow> Card" where
  "parseCard cardStr =
     (if cardStr = [] \<or> length cardStr < 2 then \<lparr>suit = [], rank = []\<rparr>
      else
        let suit = js_or (find (\<lambda>s. str_includes cardStr s) suits) [];
            rank = str_replace cardStr suit []
        in \<lparr>suit = suit, rank = rank\<rparr>)"

definition parseHand :: "jsstring list \<Rightarrow> Card list" where
  "parseHand cards = map parseCard cards"

text \<open>The wire format of a card, as \<open>handlePlayCard\<close> builds it: the template literal
  of rank followed by suit.\<close>

definition cardString :: "Card \<Rightarrow> jsstring" where
  "cardString c = rank c @ suit c"

text \<open>
  \<^verbatim>\<open>
  function cardsEqual(a: Card | null, b: Card | null): boolean {
    if (!a || !b) return false
    return a.rank === b.rank && a.suit === b.suit
  }
  \<close>
\<close>

fun cardsEqual :: "Card option \<Rightarrow> Card option \<Rightarrow> bool" where
  "cardsEqual (Some a) (Some b) = (rank a = rank b \<and> suit a = suit b)"
| "cardsEqual _ _ = False"

section \<open>The view a client receives\<close>

text \<open>
  The game state the board keeps is the JSON object the server sent. Of its fields the
  components read the ones below; a field that is absent or \<open>null\<close> is \<open>None\<close>.
\<close>

record pinfo =
  p_id :: jsstring
  p_name :: jsstring

record view =
  players :: "pinfo list option"
  your_hand :: "jsstring list option"
  top_card :: "jsstring option"
  active_suit :: "jsstring option"
  current_player_id :: "jsstring option"
  winner_id :: "jsstring option"

text \<open>
  \<^verbatim>\<open>
  const canPlayCard = (card: Card): boolean => {
    if (!gameState) return false
    if (card.rank === '8') return true
    if (gameState.active_suit) return card.suit === gameState.active_suit
    if (!gameState.top_card) return false
    const topCard = parseCard(gameState.top_card)
    return card.suit === topCard.suit || card.rank === topCard.rank
  }
  \<close>
\<close>

fun canPlayCard :: "view option \<Rightarrow> Card \<Rightarrow> bool" where
  "canPlayCard None c = False"
| "canPlayCard (Some gameState) c =
     (if rank c = ascii ''8'' then True
      else if js_truthy (active_suit gameState) then Some (suit c) = active_suit gameState
      else if \<not> js_truthy (top_card gameState) then False
      else (case top_card gameState of
              None \<Rightarrow> False
            | Some t \<Rightarrow>
                let topCard = parseCard t
                in suit c = suit topCard \<or> rank c = rank topCard))"

text \<open>
  A field of the game state is set when it holds a truthy value: \<open>null\<close>, \<open>undefined\<close>
  and the empty string all read as unset in \<open>if (gameState.active_suit)\<close> and
  \<open>if (!gameState.top_card)\<close>.
\<close>

definition js_set :: "jsstring option \<Rightarrow> jsstring option" where
  "js_set x = (if js_truthy x then x else None)"

text \<open>
  The legality rule in the words of the specification, on an optional active suit and an
  optional top card: an eight is always legal; otherwise, with an active suit, the card's
  suit must be that suit; otherwise the card must match the top card in suit or in rank.
  Without a top card there is nothing to match.
\<close>

definition legal_rule :: "Card \<Rightarrow> jsstring option \<Rightarrow> Card option \<Rightarrow> bool" where
  "legal_rule c activeSuit topCard =
     (if rank c = ascii ''8'' then True
      else (case activeSuit of
              Some s \<Rightarrow> suit c = s
            | None \<Rightarrow>
                (case topCard of
                   Some t \<Rightarrow> suit c = suit t \<or> rank c = rank t
                 | None \<Rightarrow> False)))"

section \<open>GameBoard.tsx: the component\<close>

text \<open>The component's state hooks. \<open>gameId\<close> and \<open>playerId\<close> are props.\<close>

record board_state =
  gameState :: "view option"
  hand :: "Card list"
  selectedCard :: "Card option"
  declaredSuit :: "jsstring option"
  loading :: bool

text \<open>The JSON body of the play request.\<close>

record play_body =
  card_field :: jsstring
  declared_suit :: "jsstring option"

text \<open>The HTTP requests the client issues, with the game id and the player id of
  their URLs.\<close>

datatype request =
    GetState jsstring jsstring
  | PostStart jsstring
  | PostPlay jsstring jsstring play_body
  | PostDraw jsstring jsstring

text \<open>The outcome of a \<open>fetch\<close>: it throws, or it yields a response with its \<open>ok\<close> flag
  and its JSON body.\<close>

datatype 'a fetched = Threw | Response (ok: bool) (json: 'a)

text \<open>
  \<^verbatim>\<open>
  const handlePlayCard = async () => {
    if (!selectedCard || !gameState) return
    const isEight = selectedCard.rank === '8'
    ... fetch(`.../games/${gameId}/play?player_id=${playerId}`, { method: 'POST',
      body: JSON.stringify({
        card: `${selectedCard.rank}${selectedCard.suit}`,
        declared_suit: isEight ? declaredSuit : null }) })
    if (!response.ok) { ...; alert(...); return }
    setSelectedCard(null)
    setDeclaredSuit(null)
    ... catch (error) { ...; alert('Failed to play card') }
  \<close>
  \<open>handlePlayCard\<close> is the request it sends, if any; \<open>playResponse\<close> is what it
  does to the state once the answer is there: an ok response clears the selection and
  the declared suit, any other outcome only raises an alert.
\<close>

definition handlePlayCard :: "jsstring \<Rightarrow> jsstring \<Rightarrow> board_state \<Rightarrow> request option" where
  "handlePlayCard gameId playerId st =
     (case selectedCard st of
        None \<Rightarrow> None
      | Some sel \<Rightarrow>
          (case gameState st of
             None \<Rightarrow> None
           | Some _ \<Rightarrow>
               let isEight = (rank sel = ascii ''8'')
               in Some (PostPlay gameId playerId
                    \<lparr>card_field = rank sel @ suit sel,
                     declared_suit = (if isEight then declaredSuit st else None)\<rparr>)))"

definition playResponse :: "unit fetched \<Rightarrow> board_state \<Rightarrow> board_state" where
  "playResponse resp st =
     (case resp of
        Threw \<Rightarrow> st
      | Response response_ok _ \<Rightarrow>
          if \<not> response_ok then st
          else st\<lparr>selectedCard := None, declaredSuit := None\<rparr>)"

text \<open>\<open>handleDrawCard\<close> sends the draw request; whatever the answer, it leaves the
  component's state alone.\<close>

definition handleDrawCard :: "jsstring \<Rightarrow> jsstring \<Rightarrow> request" where
  "handleDrawCard gameId playerId = PostDraw gameId playerId"

text \<open>
  What the component renders, as far as its controls go: the click handler of the draw
  pile, and the action area, which is either the suit selector with its Play 8 button or
  the Play Card button.
  \<^verbatim>\<open>
  if (loading) return <div>Loading...</div>
  if (!gameState) return <div>Error loading game</div>
  const isCurrentPlayer = gameState.current_player_id === playerId
  ...
  <div className="deck" onClick={isCurrentPlayer ? handleDrawCard : undefined}>
  ...
  {isCurrentPlayer && selectedCard && (
     selectedCard.rank === '8'
       ? <select value={declaredSuit || ''} .../> <button disabled={!declaredSuit}>Play 8</button>
       : <button onClick={handlePlayCard}>Play Card</button>)}
  \<close>
\<close>

datatype handler = HandleDrawCard | HandlePlayCard

datatype action_area =
    SuitSelector (selector_value: jsstring) (play8_disabled: bool)
  | PlayCardButton

record board_view =
  deck_onClick :: "handler option"
  actions :: "action_area option"

datatype rendered = LoadingScreen | ErrorScreen | Board board_view

definition isCurrentPlayer :: "jsstring \<Rightarrow> view \<Rightarrow> bool" where
  "isCurrentPlayer playerId gs = (current_player_id gs = Some playerId)"

definition render :: "jsstring \<Rightarrow> board_state \<Rightarrow> rendered" where
  "render playerId st =
     (if loading st then LoadingScreen
      else (case gameState st of
              None \<Rightarrow> ErrorScreen
            | Some gs \<Rightarrow>
                Board
                  \<lparr>deck_onClick = (if isCurrentPlayer playerId gs then Some HandleDrawCard else None),
                   actions =
                     (case selectedCard st of
                        None \<Rightarrow> None
                      | Some sel \<Rightarrow>
                          if \<not> isCurrentPlayer playerId gs then None
                          else if rank sel = ascii ''8''
                          then Some (SuitSelector (js_or (declaredSuit st) [])
                                       (\<not> js_truthy (declaredSuit st)))
                          else Some PlayCardButton)\<rparr>))"

text \<open>
  The user's events on the rendered board, and what each does to the component's state
  and which request it sends. A handler that is not attached, a control that is not
  rendered and a disabled button do nothing. Clicking a hand card toggles the selection
  (\<open>setSelectedCard(prev => cardsEqual(prev, card) ? null : card)\<close>); choosing an
  option of the selector stores its value (\<open>setDeclaredSuit(e.target.value)\<close>). A click
  on Play Card or Play 8 runs \<open>handlePlayCard\<close>; the event carries the server's answer
  to the request, and the state after the event is the state after that answer.
\<close>

datatype event = ClickDeck | ClickCard nat | ChooseSuit jsstring | ClickPlay "unit fetched"

definition clickPlay ::
  "jsstring \<Rightarrow> jsstring \<Rightarrow> unit fetched \<Rightarrow> board_state \<Rightarrow> board_state \<times> request list" where
  "clickPlay gameId playerId resp st =
     (case handlePlayCard gameId playerId st of
        None \<Rightarrow> (st, [])
      | Some r \<Rightarrow> (playResponse resp st, [r]))"

definition fire :: "jsstring \<Rightarrow> jsstring \<Rightarrow> event \<Rightarrow> board_state \<Rightarrow> board_state \<times> request list" where
  "fire gameId playerId ev st =
     (case render playerId st of
        Board v \<Rightarrow>
          (case ev of
             ClickDeck \<Rightarrow>
               (case deck_onClick v of
                  Some HandleDrawCard \<Rightarrow> (st, [handleDrawCard gameId playerId])
                | _ \<Rightarrow> (st, []))
           | ClickCard i \<Rightarrow>
               (if i < length (hand st)
                then (st\<lparr>selectedCard :=
                         (if cardsEqual (selectedCard st) (Some (hand st ! i)) then None
                          else Some (hand st ! i))\<rparr>, [])
                else (st, []))
           | ChooseSuit v' \<Rightarrow>
               (case actions v of
                  Some (SuitSelector _ _) \<Rightarrow> (st\<lparr>declaredSuit := Some v'\<rparr>, [])
                | _ \<Rightarrow> (st, []))
           | ClickPlay resp \<Rightarrow>
               (case actions v of
                  Some (SuitSelector _ disabled) \<Rightarrow>
                    (if disabled then (st, []) else clickPlay gameId playerId resp st)
                | Some PlayCardButton \<Rightarrow> clickPlay gameId playerId resp st
                | None \<Rightarrow> (st, [])))
      | _ \<Rightarrow> (st, []))"

text \<open>A sequence of events on a board whose game state does not change in between;
  the requests are collected in order.\<close>

fun fire_all :: "jsstring \<Rightarrow> jsstring \<Rightarrow> event list \<Rightarrow> board_state \<Rightarrow> board_state \<times> request list" where
  "fire_all gameId playerId [] st = (st, [])"
| "fire_all gameId playerId (ev # evs) st =
     (let (st', rs) = fire gameId playerId ev st;
          (st'', rs') = fire_all gameId playerId evs st'
      in (st'', rs @ rs'))"

section \<open>Update messages over the WebSocket\<close>

text \<open>
  \<open>interface GameUpdate { type: string; data: any }\<close>. The payload is an object that
  may carry a \<open>player_state\<close> view, a \<open>game_state\<close> view, or the fields of a view
  directly.
\<close>

record payload = view +
  player_state :: "view option"
  game_state :: "view option"

record GameUpdate =
  msg_type :: jsstring
  data :: "payload option"

text \<open>The empty object of \<open>update.data || {}\<close>.\<close>

definition empty_object :: payload where
  "empty_object =
     \<lparr>players = None, your_hand = None, top_card = None, active_suit = None,
      current_player_id = None, winner_id = None, player_state = None, game_state = None\<rparr>"

text \<open>\<open>data.player_state || data.game_state || data\<close>: an object is truthy.\<close>

definition boardState_of :: "GameUpdate \<Rightarrow> view" where
  "boardState_of u =
     (let d = (case data u of None \<Rightarrow> empty_object | Some d \<Rightarrow> d)
      in case player_state d of
           Some p \<Rightarrow> p
         | None \<Rightarrow> (case game_state d of Some g \<Rightarrow> g | None \<Rightarrow> view.truncate d))"

text \<open>
  \<^verbatim>\<open>
  ws.onmessage = (event) => {
    const update: GameUpdate = JSON.parse(event.data)
    const data = update.data || {}
    const playerState = data.player_state
    const boardState = playerState || data.game_state || data
    if (boardState) {
      setGameState(boardState)
      const handSource = playerState?.your_hand || boardState.your_hand || []
      setHand(parseHand(handSource))
      setLoading(false)
    }
  }
  \<close>
  An array is truthy, also when it is empty.
\<close>

definition board_onmessage :: "GameUpdate \<Rightarrow> board_state \<Rightarrow> board_state" where
  "board_onmessage u st =
     (let d = (case data u of None \<Rightarrow> empty_object | Some d \<Rightarrow> d);
          playerState = player_state d;
          boardState = boardState_of u;
          handSource =
            (case (case playerState of None \<Rightarrow> None | Some p \<Rightarrow> your_hand p) of
               Some h \<Rightarrow> h
             | None \<Rightarrow> (case your_hand boardState of Some h \<Rightarrow> h | None \<Rightarrow> []))
      in st\<lparr>gameState := Some boardState, hand := parseHand handSource, loading := False\<rparr>)"

text \<open>
  WaitingRoom's handler keeps the list of players:
  \<^verbatim>\<open>
  const boardState = data.player_state || data.game_state || data
  if (boardState && boardState.players) setPlayers(boardState.players)
  \<close>
\<close>

definition waiting_onmessage :: "GameUpdate \<Rightarrow> pinfo list \<Rightarrow> pinfo list" where
  "waiting_onmessage u ps =
     (case view.players (boardState_of u) of None \<Rightarrow> ps | Some ps' \<Rightarrow> ps')"

text \<open>
  A consumer that dispatches on the discriminant, in the words of the specification: a
  message tagged \<open>PlayerView\<close> carries the player's view, one tagged \<open>PublicView\<close> the
  public one, and the tag decides which of the two is read. A message with another tag
  is not an update of the board.
\<close>

definition dispatch_on_tag :: "GameUpdate \<Rightarrow> view option" where
  "dispatch_on_tag u =
     (let d = (case data u of None \<Rightarrow> empty_object | Some d \<Rightarrow> d)
      in if msg_type u = ascii ''PlayerView'' then player_state d
         else if msg_type u = ascii ''PublicView'' then game_state d
         else None)"

section \<open>WaitingRoom and App: starting the game\<close>

text \<open>
  \<^verbatim>\<open>
  if (loading) return <div>Loading...</div>
  const isReady = players.length === 2
  ...
  {isReady && (<button onClick={onStartGame}>Start Game</button>)}
  \<close>
\<close>

datatype waiting_rendered =
    WaitingLoading
  | WaitingList (listed: "pinfo list") (start_button: bool)

definition waiting_render :: "bool \<Rightarrow> pinfo list \<Rightarrow> waiting_rendered" where
  "waiting_render is_loading ps =
     (if is_loading then WaitingLoading
      else let isReady = (length ps = 2) in WaitingList ps isReady)"

datatype GamePhase = PhaseLobby | PhaseWaiting | PhasePlaying | PhaseFinished

record app_state =
  gameId :: jsstring
  playerId :: jsstring
  playerName :: jsstring
  phase :: GamePhase

datatype alert =
    CannotStartRead
  | NeedTwoPlayers
  | CannotStartGame
  | FailedToStartGame

datatype effect = Sent request | Alerted alert

text \<open>
  \<^verbatim>\<open>
  const handleStartGame = async () => {
    if (!gameState) return
    try {
      const stateResp = await fetch(`.../games/${gameState.gameId}/state?player_id=...`)
      if (!stateResp.ok) { alert(`Cannot start: ...`); return }
      const stateData = await stateResp.json()
      if (!stateData.players || stateData.players.length < 2) {
        alert('Need 2 players to start the game. ...'); return }
      const response = await fetch(`.../games/${gameState.gameId}/start`, { method: 'POST' })
      if (!response.ok) { ...; alert(`Cannot start game: ...`); return }
      setGameState({ ...gameState, phase: 'playing' })
    } catch (error) { ...; alert('Failed to start game') }
  }
  \<close>
  The two responses are inputs; the result is the effects in order and the new state.
\<close>

definition handleStartGame ::
  "app_state option \<Rightarrow> view fetched \<Rightarrow> unit fetched \<Rightarrow> effect list \<times> app_state option" where
  "handleStartGame gs stateResp startResp =
     (case gs of
        None \<Rightarrow> ([], None)
      | Some a \<Rightarrow>
          (case stateResp of
             Threw \<Rightarrow>
               ([Sent (GetState (gameId a) (playerId a)), Alerted FailedToStartGame], gs)
           | Response state_ok stateData \<Rightarrow>
               if \<not> state_ok
               then ([Sent (GetState (gameId a) (playerId a)), Alerted CannotStartRead], gs)
               else if (case view.players stateData of None \<Rightarrow> True | Some ps \<Rightarrow> length ps < 2)
               then ([Sent (GetState (gameId a) (playerId a)), Alerted NeedTwoPlayers], gs)
               else
                 (case startResp of
                    Threw \<Rightarrow>
                      ([Sent (GetState (gameId a) (playerId a)), Sent (PostStart (gameId a)),
                        Alerted FailedToStartGame], gs)
                  | Response start_ok _ \<Rightarrow>
                      if \<not> start_ok
                      then ([Sent (GetState (gameId a) (playerId a)), Sent (PostStart (gameId a)),
                             Alerted CannotStartGame], gs)
                      else ([Sent (GetState (gameId a) (playerId a)), Sent (PostStart (gameId a))],
                            Some (a\<lparr>phase := PhasePlaying\<rparr>)))))"

section \<open>The game engine\<close>

text \<open>
  The engine (\<open>game.py\<close> of the backend) is not among the source files; only its
  client is. It is modelled here from sections 3, 4.1, 4.2 and 7 of the specification.
\<close>

text \<open>Modelled from the spec: the engine's Card, \<open>{rank: one of A,2..10,J,Q,K; suit: one
  of the four suits}\<close>, an immutable value with equality by (rank, suit).\<close>

datatype Suit = Hearts | Diamonds | Clubs | Spades

datatype Rank = Ace | R2 | R3 | R4 | R5 | R6 | R7 | R8 | R9 | R10 | Jack | Queen | King

datatype PlayingCard = PlayingCard (rankOf: Rank) (suitOf: Suit)

text \<open>Modelled from the spec: the 52-card deck, before it is shuffled.\<close>

definition all_suits :: "Suit list" where
  "all_suits = [Hearts, Diamonds, Clubs, Spades]"

definition all_ranks :: "Rank list" where
  "all_ranks = [Ace, R2, R3, R4, R5, R6, R7, R8, R9, R10, Jack, Queen, King]"

definition full_deck :: "PlayingCard list" where
  "full_deck = concat (map (\<lambda>s. map (\<lambda>r. PlayingCard r s) all_ranks) all_suits)"

text \<open>Modelled from the spec: the error kinds of section 7.\<close>

datatype error =
    GameNotFound | GameFull | InvalidState | NotEnoughPlayers | PlayerNotInGame
  | NotYourTurn | CardNotInHand | MissingDeclaredSuit | IllegalMove | DeckExhausted

text \<open>Modelled from the spec: \<open>newShuffledDeck()\<close>, all 52 cards in pseudo-random
  order. The source of randomness is a parameter: the shuffle, a function on card
  sequences. A shuffle permutes what it is given.\<close>

type_synonym shuffle = "PlayingCard list \<Rightarrow> PlayingCard list"

definition is_shuffle :: "shuffle \<Rightarrow> bool" where
  "is_shuffle sh = (\<forall>xs. mset (sh xs) = mset xs)"

definition newShuffledDeck :: "shuffle \<Rightarrow> PlayingCard list" where
  "newShuffledDeck sh = sh full_deck"

text \<open>Modelled from the spec: \<open>draw(n)\<close> removes and returns \<open>n\<close> cards from the front
  of a deck, and fails with \<open>DeckExhausted\<close> if fewer than \<open>n\<close> remain.\<close>

definition deck_draw :: "nat \<Rightarrow> PlayingCard list \<Rightarrow> error + (PlayingCard list \<times> PlayingCard list)" where
  "deck_draw n d = (if length d < n then Inl DeckExhausted else Inr (take n d, drop n d))"

text \<open>Modelled from the spec: Player, \<open>{id, name, hand}\<close>, and Game, the aggregate root
  of section 3. The discard pile's last element is the top card.\<close>

datatype lifecycle = WAITING | ACTIVE | FINISHED

record player =
  player_id :: nat
  player_name :: string
  player_hand :: "PlayingCard list"

record game =
  game_id :: nat
  game_players :: "player list"
  drawPile :: "PlayingCard list"
  discardPile :: "PlayingCard list"
  activeSuit :: "Suit option"
  currentPlayerIndex :: nat
  state :: lifecycle
  winnerId :: "nat option"

text \<open>Modelled from the spec: \<open>create()\<close> allocates an empty Game in WAITING.\<close>

definition create :: "nat \<Rightarrow> game" where
  "create gid =
     \<lparr>game_id = gid, game_players = [], drawPile = [], discardPile = [], activeSuit = None,
      currentPlayerIndex = 0, state = WAITING, winnerId = None\<rparr>"

text \<open>Modelled from the spec: the fresh player id that \<open>join\<close> assigns, here the
  successor of the largest id seated.\<close>

definition fresh_id :: "player list \<Rightarrow> nat" where
  "fresh_id ps = Suc (foldr max (map player_id ps) 0)"

text \<open>Modelled from the spec: \<open>join(name)\<close>, allowed only in WAITING and only while
  fewer than 2 players are seated; it appends a Player with an empty hand and returns
  the new player's id. It fails with \<open>GameFull\<close> if 2 players are seated already and
  with \<open>InvalidState\<close> if the game is not WAITING.\<close>

definition join :: "string \<Rightarrow> game \<Rightarrow> error + (nat \<times> game)" where
  "join name g =
     (if length (game_players g) \<ge> 2 then Inl GameFull
      else if state g \<noteq> WAITING then Inl InvalidState
      else
        let pid = fresh_id (game_players g)
        in Inr (pid, g\<lparr>game_players := game_players g @
                  [\<lparr>player_id = pid, player_name = name, player_hand = []\<rparr>]\<rparr>))"

text \<open>Modelled from the spec: the deal of \<open>start\<close>, 7 cards from the front of the deck
  to each player in join order.\<close>

fun deal :: "player list \<Rightarrow> PlayingCard list \<Rightarrow> error + (player list \<times> PlayingCard list)" where
  "deal [] d = Inr ([], d)"
| "deal (p # ps) d =
     (case deck_draw 7 d of
        Inl e \<Rightarrow> Inl e
      | Inr (h, d') \<Rightarrow>
          (case deal ps d' of
             Inl e \<Rightarrow> Inl e
           | Inr (ps', d'') \<Rightarrow> Inr (p\<lparr>player_hand := player_hand p @ h\<rparr> # ps', d'')))"

text \<open>Modelled from the spec: \<open>start()\<close>. In ACTIVE it returns the state unchanged
  (idempotent). In WAITING it fails with \<open>NotEnoughPlayers\<close> if fewer than 2 are seated;
  otherwise it builds a shuffled deck, deals, flips one card to the discard pile, sets
  the current player index to 0 and moves to ACTIVE. A finished game cannot be started:
  the operation is not valid for that lifecycle state.\<close>

definition start :: "shuffle \<Rightarrow> game \<Rightarrow> error + game" where
  "start sh g =
     (case state g of
        ACTIVE \<Rightarrow> Inr g
      | FINISHED \<Rightarrow> Inl InvalidState
      | WAITING \<Rightarrow>
          if length (game_players g) < 2 then Inl NotEnoughPlayers
          else
            (case deal (game_players g) (newShuffledDeck sh) of
               Inl e \<Rightarrow> Inl e
             | Inr (ps, d) \<Rightarrow>
                 (case deck_draw 1 d of
                    Inl e \<Rightarrow> Inl e
                  | Inr (flipped, d') \<Rightarrow>
                      Inr (g\<lparr>game_players := ps, drawPile := d',
                              discardPile := discardPile g @ flipped,
                              currentPlayerIndex := 0, state := ACTIVE\<rparr>))))"

text \<open>Modelled from the spec: the player whose turn it is,
  \<open>players[currentPlayerIndex]\<close>, and the top card, the last element of the discard
  pile.\<close>

definition current_player :: "game \<Rightarrow> player option" where
  "current_player g =
     (if currentPlayerIndex g < length (game_players g)
      then Some (game_players g ! currentPlayerIndex g) else None)"

definition currentPlayerId :: "game \<Rightarrow> nat option" where
  "currentPlayerId g = map_option player_id (current_player g)"

definition topCard :: "game \<Rightarrow> PlayingCard option" where
  "topCard g = (if discardPile g = [] then None else Some (last (discardPile g)))"

text \<open>Modelled from the spec: the legality of a card that is not an eight.\<close>

definition legal_move :: "game \<Rightarrow> PlayingCard \<Rightarrow> bool" where
  "legal_move g c =
     (case activeSuit g of
        Some a \<Rightarrow> suitOf c = a
      | None \<Rightarrow>
          (case topCard g of
             Some t \<Rightarrow> suitOf c = suitOf t \<or> rankOf c = rankOf t
           | None \<Rightarrow> False))"

text \<open>Modelled from the spec: advancing to the next player modulo the player count.\<close>

definition next_index :: "game \<Rightarrow> nat" where
  "next_index g = (currentPlayerIndex g + 1) mod length (game_players g)"

text \<open>Modelled from the spec: the effect of a successful play. The card leaves the
  hand and becomes the top card; an eight sets the active suit to the declared one, any
  other card clears it; a hand left empty finishes the game, otherwise the turn
  advances.\<close>

definition apply_play :: "nat \<Rightarrow> PlayingCard \<Rightarrow> Suit option \<Rightarrow> game \<Rightarrow> game" where
  "apply_play pid c declared g =
     (let i = currentPlayerIndex g;
          p = game_players g ! i;
          h = remove1 c (player_hand p);
          g' = g\<lparr>game_players := (game_players g)[i := p\<lparr>player_hand := h\<rparr>],
                 discardPile := discardPile g @ [c],
                 activeSuit := (if rankOf c = R8 then declared else None)\<rparr>
      in if h = [] then g'\<lparr>state := FINISHED, winnerId := Some pid\<rparr>
         else g'\<lparr>currentPlayerIndex := next_index g\<rparr>)"

text \<open>Modelled from the spec: \<open>play(playerId, card, declaredSuit?)\<close>, with its checks
  in the order of section 4.2.\<close>

definition play :: "nat \<Rightarrow> PlayingCard \<Rightarrow> Suit option \<Rightarrow> game \<Rightarrow> error + game" where
  "play pid c declared g =
     (if state g \<noteq> ACTIVE then Inl InvalidState
      else (case current_player g of
              None \<Rightarrow> Inl NotYourTurn
            | Some p \<Rightarrow>
                if player_id p \<noteq> pid then Inl NotYourTurn
                else if c \<notin> set (player_hand p) then Inl CardNotInHand
                else if rankOf c = R8
                then (case declared of
                        None \<Rightarrow> Inl MissingDeclaredSuit
                      | Some _ \<Rightarrow> Inr (apply_play pid c declared g))
                else if legal_move g c then Inr (apply_play pid c declared g)
                else Inl IllegalMove))"

text \<open>Modelled from the spec: the draw pile a draw takes from. An empty draw pile is
  rebuilt by reshuffling all but the top card of the discard pile; if that yields no
  card the draw fails with \<open>DeckExhausted\<close>.\<close>

definition refill :: "shuffle \<Rightarrow> game \<Rightarrow> error + game" where
  "refill sh g =
     (if drawPile g \<noteq> [] then Inr g
      else if discardPile g = [] then Inl DeckExhausted
      else
        (case sh (butlast (discardPile g)) of
           [] \<Rightarrow> Inl DeckExhausted
         | c # cs \<Rightarrow> Inr (g\<lparr>drawPile := c # cs, discardPile := [last (discardPile g)]\<rparr>)))"

text \<open>Modelled from the spec: \<open>drawCard(playerId)\<close>. One card moves from the draw pile
  to the drawing player's hand and the turn advances; there is no win check.\<close>

definition drawCard :: "shuffle \<Rightarrow> nat \<Rightarrow> game \<Rightarrow> error + game" where
  "drawCard sh pid g =
     (if state g \<noteq> ACTIVE then Inl InvalidState
      else (case current_player g of
              None \<Rightarrow> Inl NotYourTurn
            | Some p \<Rightarrow>
                if player_id p \<noteq> pid then Inl NotYourTurn
                else
                  (case refill sh g of
                     Inl e \<Rightarrow> Inl e
                   | Inr g' \<Rightarrow>
                       (case drawPile g' of
                          [] \<Rightarrow> Inl DeckExhausted
                        | c # cs \<Rightarrow>
                            let i = currentPlayerIndex g'
                            in Inr (g'\<lparr>game_players :=
                                        (game_players g')[i := p\<lparr>player_hand := player_hand p @ [c]\<rparr>],
                                      drawPile := cs,
                                      currentPlayerIndex := next_index g'\<rparr>)))))"

text \<open>Modelled from the spec: the commands of section 6 that mutate a game, as the Game
  Directory routes them to the engine. A rejected command leaves the Game exactly as it
  was and reports its error; a successful one yields the new Game.\<close>

datatype command =
    Join string
  | Start
  | PlayCard nat PlayingCard "Suit option"
  | DrawCard nat

definition execute :: "shuffle \<Rightarrow> command \<Rightarrow> game \<Rightarrow> error option \<times> game" where
  "execute sh cmd g =
     (case (case cmd of
              Join name \<Rightarrow> map_sum id snd (join name g)
            | Start \<Rightarrow> start sh g
            | PlayCard pid c ds \<Rightarrow> play pid c ds g
            | DrawCard pid \<Rightarrow> drawCard sh pid g) of
        Inl e \<Rightarrow> (Some e, g)
      | Inr g' \<Rightarrow> (None, g'))"

text \<open>Modelled from the spec: the states a game can reach from its creation by any
  sequence of commands, each with a shuffle of its own.\<close>

inductive reachable :: "game \<Rightarrow> bool" where
  created: "reachable (create gid)"
| executed: "reachable g \<Longrightarrow> is_shuffle sh \<Longrightarrow> reachable (snd (execute sh cmd g))"

text \<open>A sequence of commands run in order from a given game, errors ignored as the
  directory leaves the game untouched on a rejected command.\<close>

fun run :: "shuffle \<Rightarrow> command list \<Rightarrow> game \<Rightarrow> game" where
  "run sh [] g = g"
| "run sh (cmd # cmds) g = run sh cmds (snd (execute sh cmd g))"

text \<open>Modelled from the spec: the number of cards in play,
  \<open>|drawPile| + |discardPile| + sum of |hand|\<close>.\<close>

definition hands_total :: "player list \<Rightarrow> nat" where
  "hands_total ps = sum_list (map (\<lambda>p. length (player_hand p)) ps)"

definition total_cards :: "game \<Rightarrow> nat" where
  "total_cards g = length (drawPile g) + length (discardPile g) + hands_total (game_players g)"

section \<open>Strings and \<open>parseCard\<close>\<close>

text \<open>\<open>str_includes\<close> is the contiguous-sublist relation of the list library.\<close>

lemma str_includes_sublist: "str_includes s pat = sublist pat s"
  by (induction s) (simp_all add: sublist_Cons_right)

lemma str_replace_absent: "\<not> str_includes s pat \<Longrightarrow> str_replace s pat rep = s"
  by (induction s) auto

lemma str_replace_empty_pattern: "str_replace s [] [] = s"
  by (cases s) simp_all

lemma find_none_absent:
  "(\<forall>s \<in> set suits. \<not> str_includes cardStr s) \<Longrightarrow>
   find (\<lambda>s. str_includes cardStr s) suits = None"
  by (simp add: find_None_iff)

lemma parseCard_short: "length cardStr < 2 \<Longrightarrow> parseCard cardStr = \<lparr>suit = [], rank = []\<rparr>"
  by (simp add: parseCard_def)

lemma parseCard_no_suit:
  assumes "2 \<le> length cardStr" and "\<forall>s \<in> set suits. \<not> str_includes cardStr s"
  shows "parseCard cardStr = \<lparr>suit = [], rank = cardStr\<rparr>"
proof -
  from assms(1) have "\<not> (cardStr = [] \<or> length cardStr < 2)" by auto
  with find_none_absent [OF assms(2)] show ?thesis
    by (simp add: parseCard_def str_replace_empty_pattern)
qed

text \<open>Every entry of the suit table starts with the code unit U+201A, which no rank
  contains; so a suit is found in rank-then-suit only at the very end.\<close>

lemma suit_shape: "s \<in> set suits \<Longrightarrow> \<exists>u. s = [0x201A, 0xF4, u]"
  by (auto simp: suits_def hearts_def diamonds_def clubs_def spades_def)

lemma includes_skip_rank:
  assumes "0x201A \<notin> set r" and "t \<in> set suits"
  shows "str_includes (r @ s) t = str_includes s t"
  using assms(1)
proof (induction r)
  case Nil
  show ?case by simp
next
  case (Cons x r)
  from suit_shape [OF assms(2)] obtain u where t: "t = [0x201A, 0xF4, u]" by blast
  from Cons.prems have "x \<noteq> 0x201A" by auto
  with t have "\<not> prefix t (x # r @ s)" by auto
  with Cons show ?case by simp
qed

lemma includes_suit_suit:
  assumes "s \<in> set suits" and "t \<in> set suits"
  shows "str_includes s t = (s = t)"
  using assms
  by (auto simp: suits_def hearts_def diamonds_def clubs_def spades_def)

lemma find_own_suit:
  assumes "0x201A \<notin> set r" and "s \<in> set suits"
  shows "find (\<lambda>t. str_includes (r @ s) t) suits = Some s"
proof -
  have "find (\<lambda>t. str_includes (r @ s) t) suits = find (\<lambda>t. s = t) suits"
    by (rule find_cong) (simp_all add: includes_skip_rank [OF assms(1)] includes_suit_suit [OF assms(2)])
  also have "\<dots> = Some s"
    using assms(2) by (auto simp: suits_def)
  finally show ?thesis .
qed

lemma replace_suit_suffix:
  assumes "0x201A \<notin> set r" and "s \<in> set suits"
  shows "str_replace (r @ s) s [] = r"
  using assms(1)
proof (induction r)
  case Nil
  from suit_shape [OF assms(2)] obtain u where "s = [0x201A, 0xF4, u]" by blast
  then show ?case by simp
next
  case (Cons x r)
  from suit_shape [OF assms(2)] obtain u where s: "s = [0x201A, 0xF4, u]" by blast
  from Cons.prems have "x \<noteq> 0x201A" by auto
  with s have "\<not> prefix s (x # r @ s)" by auto
  with Cons show ?case by simp
qed

lemma parseCard_rank_suit:
  assumes "0x201A \<notin> set r" and "s \<in> set suits"
  shows "parseCard (r @ s) = \<lparr>suit = s, rank = r\<rparr>"
proof -
  from suit_shape [OF assms(2)] obtain u where s: "s = [0x201A, 0xF4, u]" by blast
  then have "\<not> (r @ s = [] \<or> length (r @ s) < 2)" and "s \<noteq> []" by auto
  with find_own_suit [OF assms] replace_suit_suffix [OF assms] show ?thesis
    by (simp add: parseCard_def)
qed

lemma ranks_ascii: "r \<in> set ranks \<Longrightarrow> 0x201A \<notin> set r"
  by (auto simp: ranks_def ascii_def)

lemma cards_52:
  "length (List.product ranks suits) = 52
   \<and> distinct (map (\<lambda>(r, s). r @ s) (List.product ranks suits))"
  by (simp add: ranks_def suits_def ascii_def hearts_def diamonds_def clubs_def spades_def)

text \<open>
  The round trip on the table's own strings: for every rank \<open>r\<close> of A, 2, ..., 10, J, Q,
  K and every entry \<open>s\<close> of the suit table, \<open>parseCard\<close> applied to \<open>r\<close> followed by \<open>s\<close>
  returns the card of rank \<open>r\<close> and suit \<open>s\<close>; there are 52 such strings, all different.
\<close>

lemma parseCard_roundtrip_table:
  assumes "r \<in> set ranks" and "s \<in> set suits"
  shows "parseCard (r @ s) = \<lparr>suit = s, rank = r\<rparr>
    \<and> parseCard (cardString \<lparr>suit = s, rank = r\<rparr>) = \<lparr>suit = s, rank = r\<rparr>"
  using parseCard_rank_suit [OF ranks_ascii [OF assms(1)] assms(2)]
  by (simp add: cardString_def)

lemma parseCard_roundtrip_table_example:
  "parseCard (ascii ''10'' @ hearts) = \<lparr>suit = hearts, rank = ascii ''10''\<rparr>"
  by (rule parseCard_rank_suit) (simp_all add: ascii_def suits_def)

text \<open>
  The table holds these three-unit strings and nothing else. The suit symbols of the
  data model and of the documented wire format (\<open>{ "card": "8<U+2665>", ... }\<close> in the
  API reference) are the single code units U+2665, U+2666, U+2663 and U+2660. A string
  without the code unit U+201A contains no entry of the table, so a card written with
  one of those symbols comes back whole as the rank, with an empty suit.
\<close>

lemma no_table_entry:
  assumes "0x201A \<notin> set cs" and "s \<in> set suits"
  shows "\<not> str_includes cs s"
  using assms(1)
proof (induction cs)
  case Nil
  from suit_shape [OF assms(2)] show ?case by auto
next
  case (Cons x cs)
  from suit_shape [OF assms(2)] obtain u where "s = [0x201A, 0xF4, u]" by blast
  with Cons show ?case by auto
qed

lemma parseCard_symbol_cards:
  assumes "r \<in> set ranks" and "g \<in> set suit_symbols"
  shows "parseCard (r @ g) = \<lparr>suit = [], rank = r @ g\<rparr>"
proof (rule parseCard_no_suit)
  from assms(1) have "r \<noteq> []" by (auto simp: ranks_def ascii_def)
  moreover from assms(2) have "length g = 1" by (auto simp: suit_symbols_def)
  ultimately show "2 \<le> length (r @ g)" by (cases r) simp_all
next
  from assms(2) have "0x201A \<notin> set g" by (auto simp: suit_symbols_def)
  with ranks_ascii [OF assms(1)] have "0x201A \<notin> set (r @ g)" by simp
  then show "\<forall>s \<in> set suits. \<not> str_includes (r @ g) s"
    using no_table_entry [of "r @ g"] by blast
qed

text \<open>
  C8. The claim is the round trip for the 52 cards written with the suit symbols U+2665,
  U+2666, U+2663 and U+2660: \<open>parseCard\<close> applied to rank followed by suit symbol should
  return exactly that rank and that suit. The code does not do so. At the ace of hearts,
  \<open>A\<close> followed by U+2665, it returns the whole string as the rank and the empty string
  as the suit, which is not the card of rank \<open>A\<close> and suit U+2665.
\<close>

theorem parseCard_ace_of_hearts:
  "parseCard (ascii ''A'' @ [0x2665]) = \<lparr>suit = [], rank = ascii ''A'' @ [0x2665]\<rparr>
   \<and> parseCard (ascii ''A'' @ [0x2665]) \<noteq> \<lparr>suit = [0x2665], rank = ascii ''A''\<rparr>"
proof -
  have "ascii ''A'' \<in> set ranks" by (simp add: ranks_def)
  moreover have "[0x2665] \<in> set suit_symbols" by (simp add: suit_symbols_def)
  ultimately have "parseCard (ascii ''A'' @ [0x2665]) = \<lparr>suit = [], rank = ascii ''A'' @ [0x2665]\<rparr>"
    by (rule parseCard_symbol_cards)
  then show ?thesis by simp
qed

text \<open>
  On every string \<open>parseCard\<close> has a result: every step of the function (\<open>length\<close>,
  \<open>includes\<close>, \<open>find\<close>, \<open>replace\<close>) is defined on every string, so no input makes it
  throw. A string shorter than 2 code units gives the card with empty rank and empty
  suit, and a string of at least 2 code units that contains none of the table's four
  entries comes back whole as the rank, with an empty suit.
\<close>

lemma parseCard_fallthrough:
  "(length cardStr < 2 \<longrightarrow> parseCard cardStr = \<lparr>suit = [], rank = []\<rparr>)
   \<and> (2 \<le> length cardStr \<and> (\<forall>s \<in> set suits. \<not> sublist s cardStr)
        \<longrightarrow> parseCard cardStr = \<lparr>suit = [], rank = cardStr\<rparr>)"
  using parseCard_short [of cardStr] parseCard_no_suit [of cardStr]
  by (simp add: str_includes_sublist)

lemma parseCard_fallthrough_example:
  "parseCard (ascii ''7'') = \<lparr>suit = [], rank = []\<rparr>
   \<and> parseCard (ascii ''Joker'') = \<lparr>suit = [], rank = ascii ''Joker''\<rparr>"
proof -
  have n: "\<forall>s \<in> set suits. \<not> sublist s (ascii ''Joker'')"
    by (simp add: str_includes_sublist [symmetric] suits_def hearts_def diamonds_def
        clubs_def spades_def ascii_def)
  have l: "2 \<le> length (ascii ''Joker'')" and k: "length (ascii ''7'') < 2"
    by (simp_all add: ascii_def)
  from parseCard_fallthrough [of "ascii ''7''"] parseCard_fallthrough [of "ascii ''Joker''"] n l k
  show ?thesis by simp
qed

text \<open>
  C10. The claim: \<open>parseCard\<close> is total; a string shorter than 2 gives the empty card,
  and a string of length at least 2 that contains none of the four suit symbols (U+2665,
  U+2666, U+2663, U+2660) comes back whole as the rank, with an empty suit. The code
  does not do the latter. The string \<open>7\<close> followed by U+201A, U+00F4, U+00A3 has length
  4 and contains none of the four suit symbols, yet \<open>parseCard\<close> splits it: the rank is
  \<open>7\<close> and the suit is the table's third entry.
\<close>

theorem parseCard_splits_without_symbol:
  "2 \<le> length (ascii ''7'' @ clubs)
   \<and> \<not> sublist [0x2665] (ascii ''7'' @ clubs) \<and> \<not> sublist [0x2666] (ascii ''7'' @ clubs)
   \<and> \<not> sublist [0x2663] (ascii ''7'' @ clubs) \<and> \<not> sublist [0x2660] (ascii ''7'' @ clubs)
   \<and> parseCard (ascii ''7'' @ clubs) = \<lparr>suit = clubs, rank = ascii ''7''\<rparr>
   \<and> parseCard (ascii ''7'' @ clubs) \<noteq> \<lparr>suit = [], rank = ascii ''7'' @ clubs\<rparr>"
proof -
  have p: "parseCard (ascii ''7'' @ clubs) = \<lparr>suit = clubs, rank = ascii ''7''\<rparr>"
    by (rule parseCard_rank_suit) (simp_all add: ascii_def suits_def)
  have "\<not> str_includes (ascii ''7'' @ clubs) [0x2665]"
    and "\<not> str_includes (ascii ''7'' @ clubs) [0x2666]"
    and "\<not> str_includes (ascii ''7'' @ clubs) [0x2663]"
    and "\<not> str_includes (ascii ''7'' @ clubs) [0x2660]"
    by (simp_all add: ascii_def clubs_def)
  with p show ?thesis
    by (simp add: str_includes_sublist clubs_def)
qed

section \<open>Card equality\<close>

text \<open>
  C7. For cards \<open>a\<close> and \<open>b\<close> that are both present, \<open>cardsEqual\<close> holds exactly when
  they agree in rank and in suit, that is, exactly when they are the same (rank, suit)
  pair.
\<close>

theorem cardsEqual_iff:
  "cardsEqual (Some a) (Some b) = (rank a = rank b \<and> suit a = suit b)
   \<and> cardsEqual (Some a) (Some b) = ((a :: Card) = b)"
  by auto

section \<open>The client's legality check\<close>

lemma js_set_nonempty: "x \<noteq> Some [] \<Longrightarrow> js_set x = x"
  by (cases x) (auto simp: js_set_def)

lemma canPlayCard_rule_set:
  "canPlayCard (Some g) c
   = legal_rule c (js_set (active_suit g)) (map_option parseCard (js_set (top_card g)))"
proof (cases "rank c = ascii ''8''")
  case True
  then show ?thesis by (simp add: legal_rule_def)
next
  case False
  show ?thesis
  proof (cases "js_truthy (active_suit g)")
    case True
    then obtain a where "active_suit g = Some a" "a \<noteq> []"
      by (cases "active_suit g") auto
    with False show ?thesis by (auto simp: legal_rule_def js_set_def)
  next
    case nt: False
    show ?thesis
    proof (cases "js_truthy (top_card g)")
      case True
      then obtain t where "top_card g = Some t" "t \<noteq> []"
        by (cases "top_card g") auto
      with False nt show ?thesis by (simp add: legal_rule_def js_set_def Let_def)
    next
      case False
      with \<open>rank c \<noteq> ascii ''8''\<close> nt show ?thesis by (simp add: legal_rule_def js_set_def)
    qed
  qed
qed

text \<open>
  Whatever \<open>parseCard\<close> makes of the top card, the check is the ordered rule applied to
  it: a card whose rank string is \<open>8\<close> is always playable; otherwise, with an active suit
  set, the card's suit must be that suit; otherwise the card must agree with the parsed
  top card in suit or in rank.
\<close>

lemma canPlayCard_if_chain:
  "canPlayCard (Some g) c
   = legal_rule c (js_set (active_suit g)) (map_option parseCard (js_set (top_card g)))"
  by (rule canPlayCard_rule_set)

text \<open>In a game state whose suit and card strings are not empty, every field that is
  there is set; and an example with top card 7 of the third suit: the 7 of the second
  suit matches in rank, the 5 of the second suit does not match.\<close>

lemma canPlayCard_wellformed:
  assumes "active_suit g \<noteq> Some []" and "top_card g \<noteq> Some []"
  shows "canPlayCard (Some g) c
    = legal_rule c (active_suit g) (map_option parseCard (top_card g))"
  using assms canPlayCard_rule_set [of g c] by (simp add: js_set_nonempty)

lemma canPlayCard_example:
  "canPlayCard
     (Some \<lparr>players = None, your_hand = None, top_card = Some (ascii ''7'' @ clubs),
            active_suit = None, current_player_id = None, winner_id = None\<rparr>)
     \<lparr>suit = diamonds, rank = ascii ''7''\<rparr>
   \<and> \<not> canPlayCard
     (Some \<lparr>players = None, your_hand = None, top_card = Some (ascii ''7'' @ clubs),
            active_suit = None, current_player_id = None, winner_id = None\<rparr>)
     \<lparr>suit = diamonds, rank = ascii ''5''\<rparr>"
proof -
  have t: "parseCard (ascii ''7'' @ clubs) = \<lparr>suit = clubs, rank = ascii ''7''\<rparr>"
    by (rule parseCard_rank_suit) (simp_all add: ascii_def suits_def)
  then show ?thesis
    by (simp add: ascii_def diamonds_def clubs_def)
qed

text \<open>For a top card written with an entry of the suit table, the parsed top card is
  the top card, and the check is the rule on the cards themselves.\<close>

lemma canPlayCard_table_cards:
  assumes "0x201A \<notin> set rt" and "st \<in> set suits" and "active_suit g \<noteq> Some []"
    and "top_card g = Some (rt @ st)"
  shows "canPlayCard (Some g) c = legal_rule c (active_suit g) (Some \<lparr>suit = st, rank = rt\<rparr>)"
proof -
  from suit_shape [OF assms(2)] assms(4) have "top_card g \<noteq> Some []" by auto
  from canPlayCard_wellformed [OF assms(3) this, of c] assms(4)
    parseCard_rank_suit [OF assms(1,2)]
  show ?thesis by simp
qed

text \<open>
  C1. The claim: for every game state that is present and every card, \<open>canPlayCard\<close>
  answers as the ordered legality rule does on the card and the top card (an eight is
  always legal; otherwise, with an active suit, the suits must agree; otherwise the card
  must match the top card in suit or in rank). The code does not, on cards written with
  the suit symbols U+2665, U+2666, U+2663, U+2660. With top card 7 of clubs and no
  active suit, the hand card 5 of diamonds is marked playable, though it matches neither
  suit nor rank, and the card 7 of diamonds given with rank \<open>7\<close> and suit U+2666 is
  marked unplayable, though the ranks agree. With active suit spades, the hand card 8 of
  hearts is marked unplayable, though an eight is always legal.
\<close>

theorem canPlayCard_symbol_cards:
  "canPlayCard
     (Some \<lparr>players = None, your_hand = None, top_card = Some (ascii ''7'' @ [0x2663]),
            active_suit = None, current_player_id = None, winner_id = None\<rparr>)
     (parseCard (ascii ''5'' @ [0x2666]))
   \<and> \<not> legal_rule \<lparr>suit = [0x2666], rank = ascii ''5''\<rparr> None
         (Some \<lparr>suit = [0x2663], rank = ascii ''7''\<rparr>)
   \<and> \<not> canPlayCard
     (Some \<lparr>players = None, your_hand = None, top_card = Some (ascii ''7'' @ [0x2663]),
            active_suit = None, current_player_id = None, winner_id = None\<rparr>)
     \<lparr>suit = [0x2666], rank = ascii ''7''\<rparr>
   \<and> legal_rule \<lparr>suit = [0x2666], rank = ascii ''7''\<rparr> None
         (Some \<lparr>suit = [0x2663], rank = ascii ''7''\<rparr>)
   \<and> \<not> canPlayCard
     (Some \<lparr>players = None, your_hand = None, top_card = Some (ascii ''7'' @ [0x2663]),
            active_suit = Some [0x2660], current_player_id = None, winner_id = None\<rparr>)
     (parseCard (ascii ''8'' @ [0x2665]))
   \<and> legal_rule \<lparr>suit = [0x2665], rank = ascii ''8''\<rparr> (Some [0x2660])
         (Some \<lparr>suit = [0x2663], rank = ascii ''7''\<rparr>)"
proof -
  have r: "ascii ''5'' \<in> set ranks" "ascii ''7'' \<in> set ranks" "ascii ''8'' \<in> set ranks"
    by (simp_all add: ranks_def)
  have g: "[0x2666] \<in> set suit_symbols" "[0x2663] \<in> set suit_symbols"
    "[0x2665] \<in> set suit_symbols"
    by (simp_all add: suit_symbols_def)
  have p5: "parseCard (ascii ''5'' @ [0x2666]) = \<lparr>suit = [], rank = ascii ''5'' @ [0x2666]\<rparr>"
    using r(1) g(1) by (rule parseCard_symbol_cards)
  have p7: "parseCard (ascii ''7'' @ [0x2663]) = \<lparr>suit = [], rank = ascii ''7'' @ [0x2663]\<rparr>"
    using r(2) g(2) by (rule parseCard_symbol_cards)
  have p8: "parseCard (ascii ''8'' @ [0x2665]) = \<lparr>suit = [], rank = ascii ''8'' @ [0x2665]\<rparr>"
    using r(3) g(3) by (rule parseCard_symbol_cards)
  from p5 p7 p8 show ?thesis
    by (simp add: legal_rule_def ascii_def Let_def)
qed

section \<open>The board's controls\<close>

lemma fire_gameState:
  "gameState (fst (fire gid pid ev st)) = gameState st
   \<and> loading (fst (fire gid pid ev st)) = loading st"
  by (simp add: fire_def clickPlay_def playResponse_def
      split: rendered.splits event.splits option.splits handler.splits action_area.splits
        fetched.splits)

lemma render_not_current:
  assumes "gameState st = Some gs" and "current_player_id gs \<noteq> Some pid"
  shows "render pid st = LoadingScreen
    \<or> render pid st = Board \<lparr>deck_onClick = None, actions = None\<rparr>"
  using assms by (simp add: render_def isCurrentPlayer_def split: option.splits)

lemma fire_not_current:
  assumes "gameState st = Some gs" and "current_player_id gs \<noteq> Some pid"
  shows "snd (fire gid pid ev st) = []"
  using render_not_current [OF assms]
  by (auto simp: fire_def split: event.splits)

lemma fire_all_not_current:
  assumes "gameState st = Some gs" and "current_player_id gs \<noteq> Some pid"
  shows "snd (fire_all gid pid evs st) = []"
  using assms(1)
proof (induction evs arbitrary: st)
  case Nil
  show ?case by simp
next
  case (Cons ev evs)
  have "gameState (fst (fire gid pid ev st)) = Some gs"
    using fire_gameState [of gid pid ev st] Cons.prems by simp
  from Cons.IH [OF this] fire_not_current [OF Cons.prems assms(2), of gid ev]
  show ?case by (simp add: split_beta)
qed

lemma handlePlayCard_body:
  assumes "handlePlayCard gid pid st = Some r"
  shows "\<exists>sel. selectedCard st = Some sel \<and>
     r = PostPlay gid pid \<lparr>card_field = rank sel @ suit sel,
           declared_suit = (if rank sel = ascii ''8'' then declaredSuit st else None)\<rparr>"
  using assms by (auto simp: handlePlayCard_def Let_def split: option.splits)

lemma fire_play_request:
  assumes "PostPlay gid' pid' b \<in> set (snd (fire gid pid ev st))"
  shows "\<exists>sel. selectedCard st = Some sel \<and> card_field b = cardString sel
     \<and> (if rank sel = ascii ''8'' then js_truthy (declaredSuit st) \<and> declared_suit b = declaredSuit st
         else declared_suit b = None)"
proof -
  from assms obtain v where rv: "render pid st = Board v"
    by (cases "render pid st") (simp_all add: fire_def)
  from assms rv obtain resp where ev: "ev = ClickPlay resp"
    by (cases ev)
      (auto simp: fire_def handleDrawCard_def
        split: option.splits handler.splits if_splits action_area.splits)
  from assms rv ev obtain r where h: "handlePlayCard gid pid st = Some r"
    and r: "PostPlay gid' pid' b = r"
    and en: "actions v = Some PlayCardButton \<or> (\<exists>x. actions v = Some (SuitSelector x False))"
    by (auto simp: fire_def clickPlay_def split: option.splits action_area.splits if_splits)
  from handlePlayCard_body [OF h] obtain sel where sel: "selectedCard st = Some sel"
    and rr: "r = PostPlay gid pid \<lparr>card_field = rank sel @ suit sel,
           declared_suit = (if rank sel = ascii ''8'' then declaredSuit st else None)\<rparr>" by blast
  from rv sel en have "rank sel = ascii ''8'' \<longrightarrow> js_truthy (declaredSuit st)"
    by (auto simp: render_def split: if_splits option.splits)
  with sel rr r show ?thesis by (auto simp: cardString_def)
qed

lemma render_eight_disabled:
  assumes "render pid st = Board v" and "selectedCard st = Some sel" and "rank sel = ascii ''8''"
  shows "actions v = None \<or> actions v = Some (SuitSelector (js_or (declaredSuit st) []) (\<not> js_truthy (declaredSuit st)))"
  using assms by (auto simp: render_def split: if_splits option.splits)

text \<open>After a play that the server accepted the selection is gone, and with it the
  action area: a second click sends nothing.\<close>

lemma no_second_post:
  assumes "snd (fire gid pid (ClickPlay (Response True ())) st) \<noteq> []"
  shows "snd (fire gid pid (ClickPlay resp) (fst (fire gid pid (ClickPlay (Response True ())) st))) = []"
proof -
  let ?st' = "fst (fire gid pid (ClickPlay (Response True ())) st)"
  from assms have "selectedCard ?st' = None"
    by (auto simp: fire_def clickPlay_def playResponse_def
        split: rendered.splits option.splits action_area.splits if_splits)
  then have "render pid ?st' = LoadingScreen \<or> render pid ?st' = ErrorScreen
    \<or> (\<exists>d. render pid ?st' = Board \<lparr>deck_onClick = d, actions = None\<rparr>)"
    by (auto simp: render_def split: option.splits)
  then show ?thesis
    by (auto simp: fire_def)
qed

section \<open>The engine: conservation of cards\<close>

lemma length_full_deck: "length full_deck = 52"
  by (simp add: full_deck_def all_suits_def all_ranks_def)

lemma is_shuffle_length: "is_shuffle sh \<Longrightarrow> length (sh xs) = length xs"
  unfolding is_shuffle_def by (metis size_mset)

lemma is_shuffle_id: "is_shuffle (\<lambda>xs. xs)"
  by (simp add: is_shuffle_def)

lemma deck_draw_Inr:
  "deck_draw n d = Inr (h, d') \<Longrightarrow> length h = n \<and> length h + length d' = length d"
  by (auto simp: deck_draw_def split: if_splits)

lemma hands_total_Cons [simp]:
  "hands_total (p # ps) = length (player_hand p) + hands_total ps"
  by (simp add: hands_total_def)

lemma hands_total_Nil [simp]: "hands_total [] = 0"
  by (simp add: hands_total_def)

lemma hands_total_append [simp]:
  "hands_total (ps @ qs) = hands_total ps + hands_total qs"
  by (simp add: hands_total_def)

lemma hands_total_update:
  "i < length ps \<Longrightarrow>
   hands_total (ps[i := q]) + length (player_hand (ps ! i)) = hands_total ps + length (player_hand q)"
proof (induction ps arbitrary: i)
  case Nil
  then show ?case by simp
next
  case (Cons p ps)
  then show ?case by (cases i) auto
qed

lemma deal_Inr:
  "deal ps d = Inr (ps', d') \<Longrightarrow>
   hands_total ps' + length d' = hands_total ps + length d \<and> length ps' = length ps"
proof (induction ps arbitrary: d ps' d')
  case Nil
  then show ?case by simp
next
  case (Cons p ps)
  from Cons.prems obtain h d1 ps1 where
    dr: "deck_draw 7 d = Inr (h, d1)" and
    dl: "deal ps d1 = Inr (ps1, d')" and
    eq: "ps' = p\<lparr>player_hand := player_hand p @ h\<rparr> # ps1"
    by (auto split: sum.splits prod.splits)
  from Cons.IH [OF dl] deck_draw_Inr [OF dr] eq show ?case by simp
qed

lemma start_WAITING:
  assumes "start sh g = Inr g'" "state g = WAITING" "is_shuffle sh"
  shows "total_cards g' + length (drawPile g) = total_cards g + 52 \<and> state g' = ACTIVE
         \<and> length (game_players g') = length (game_players g) \<and> 2 \<le> length (game_players g)"
proof -
  from assms(1,2) obtain ps d fl d' where
    n: "\<not> length (game_players g) < 2" and
    dl: "deal (game_players g) (newShuffledDeck sh) = Inr (ps, d)" and
    dr: "deck_draw 1 d = Inr (fl, d')" and
    g': "g' = g\<lparr>game_players := ps, drawPile := d', discardPile := discardPile g @ fl,
                  currentPlayerIndex := 0, state := ACTIVE\<rparr>"
    by (auto simp: start_def split: if_splits sum.splits prod.splits)
  have "length (newShuffledDeck sh) = 52"
    using assms(3) by (simp add: newShuffledDeck_def is_shuffle_length length_full_deck)
  with deal_Inr [OF dl] deck_draw_Inr [OF dr] n g' assms(2)
  show ?thesis
    by (simp add: total_cards_def)
qed

lemma current_player_Some:
  "current_player g = Some p \<Longrightarrow>
   currentPlayerIndex g < length (game_players g) \<and> p = game_players g ! currentPlayerIndex g"
  by (auto simp: current_player_def split: if_splits)

lemma length_remove1_mem: "c \<in> set h \<Longrightarrow> Suc (length (remove1 c h)) = length h"
  by (induction h) auto

lemma apply_play_total:
  assumes "current_player g = Some p" "c \<in> set (player_hand p)"
  shows "total_cards (apply_play pid c ds g) = total_cards g"
proof -
  let ?i = "currentPlayerIndex g"
  from current_player_Some [OF assms(1)] have i: "?i < length (game_players g)"
    and p: "p = game_players g ! ?i" by simp_all
  let ?q = "p\<lparr>player_hand := remove1 c (player_hand p)\<rparr>"
  have "hands_total ((game_players g)[?i := ?q]) + length (player_hand p)
        = hands_total (game_players g) + length (player_hand ?q)"
    using hands_total_update [OF i, of ?q] p by simp
  moreover have "Suc (length (player_hand ?q)) = length (player_hand p)"
    using length_remove1_mem [OF assms(2)] by simp
  ultimately have "Suc (hands_total ((game_players g)[?i := ?q])) = hands_total (game_players g)"
    by simp
  moreover have "total_cards (apply_play pid c ds g)
      = length (drawPile g) + Suc (length (discardPile g)) + hands_total ((game_players g)[?i := ?q])"
    using p by (simp add: apply_play_def total_cards_def Let_def)
  ultimately show ?thesis
    by (simp add: total_cards_def)
qed

lemma apply_play_frame:
  "length (game_players (apply_play pid c ds g)) = length (game_players g)
   \<and> (state g \<noteq> WAITING \<longrightarrow> state (apply_play pid c ds g) \<noteq> WAITING)"
  by (simp add: apply_play_def Let_def)

lemma play_Inr:
  assumes "play pid c ds g = Inr g'"
  shows "total_cards g' = total_cards g \<and> length (game_players g') = length (game_players g)
         \<and> state g = ACTIVE \<and> state g' \<noteq> WAITING"
proof -
  from assms obtain p where
    st: "state g = ACTIVE" and cp: "current_player g = Some p" and
    mem: "c \<in> set (player_hand p)" and g': "g' = apply_play pid c ds g"
    by (auto simp: play_def split: if_splits option.splits)
  from apply_play_total [OF cp mem, of pid ds] apply_play_frame [of pid c ds g] st g'
  show ?thesis by simp
qed

lemma refill_Inr:
  assumes "refill sh g = Inr g'" "is_shuffle sh"
  shows "length (drawPile g') + length (discardPile g') = length (drawPile g) + length (discardPile g)
         \<and> game_players g' = game_players g \<and> state g' = state g
         \<and> currentPlayerIndex g' = currentPlayerIndex g"
proof (cases "drawPile g = []")
  case False
  with assms(1) show ?thesis by (simp add: refill_def)
next
  case True
  with assms(1) obtain c cs where
    ne: "discardPile g \<noteq> []" and sh: "sh (butlast (discardPile g)) = c # cs" and
    g': "g' = g\<lparr>drawPile := c # cs, discardPile := [last (discardPile g)]\<rparr>"
    by (auto simp: refill_def split: if_splits list.splits)
  have "length (c # cs) = length (butlast (discardPile g))"
    using is_shuffle_length [OF assms(2), of "butlast (discardPile g)"] sh by simp
  with ne True g' show ?thesis by simp
qed

lemma drawCard_Inr:
  assumes "drawCard sh pid g = Inr g'" "is_shuffle sh"
  shows "total_cards g' = total_cards g \<and> length (game_players g') = length (game_players g)
         \<and> state g = ACTIVE \<and> state g' = ACTIVE"
proof -
  from assms(1) obtain p g1 c cs where
    st: "state g = ACTIVE" and cp: "current_player g = Some p" and
    rf: "refill sh g = Inr g1" and dp: "drawPile g1 = c # cs" and
    g': "g' = g1\<lparr>game_players :=
                   (game_players g1)[currentPlayerIndex g1 := p\<lparr>player_hand := player_hand p @ [c]\<rparr>],
                 drawPile := cs, currentPlayerIndex := next_index g1\<rparr>"
    by (auto simp: drawCard_def Let_def split: if_splits option.splits sum.splits list.splits)
  let ?i = "currentPlayerIndex g"
  from current_player_Some [OF cp] have i: "?i < length (game_players g)"
    and p: "p = game_players g ! ?i" by simp_all
  from refill_Inr [OF rf assms(2)] have
    piles: "length (drawPile g1) + length (discardPile g1) = length (drawPile g) + length (discardPile g)"
    and same: "game_players g1 = game_players g" "state g1 = state g"
      "currentPlayerIndex g1 = currentPlayerIndex g"
    by simp_all
  let ?q = "p\<lparr>player_hand := player_hand p @ [c]\<rparr>"
  have "hands_total ((game_players g)[?i := ?q]) + length (player_hand p)
        = hands_total (game_players g) + length (player_hand ?q)"
    using hands_total_update [OF i, of ?q] p by simp
  with piles same dp g' st show ?thesis
    by (simp add: total_cards_def)
qed

lemma join_Inr:
  assumes "join name g = Inr (pid, g')"
  shows "total_cards g' = total_cards g \<and> state g = WAITING \<and> state g' = WAITING
         \<and> length (game_players g') = Suc (length (game_players g))
         \<and> length (game_players g') \<le> 2"
  using assms by (auto simp: join_def Let_def total_cards_def split: if_splits)

text \<open>What a command can do to a game: nothing, a join, the deal, or a move.\<close>

lemma execute_effect:
  assumes "is_shuffle sh"
  shows "snd (execute sh cmd g) = g
    \<or> (state g = WAITING \<and> state (snd (execute sh cmd g)) = WAITING
        \<and> total_cards (snd (execute sh cmd g)) = total_cards g
        \<and> length (game_players (snd (execute sh cmd g))) \<le> 2)
    \<or> (state g = WAITING \<and> state (snd (execute sh cmd g)) = ACTIVE
        \<and> total_cards (snd (execute sh cmd g)) + length (drawPile g) = total_cards g + 52
        \<and> length (game_players (snd (execute sh cmd g))) = length (game_players g)
        \<and> 2 \<le> length (game_players g))
    \<or> (state g = ACTIVE \<and> state (snd (execute sh cmd g)) \<noteq> WAITING
        \<and> total_cards (snd (execute sh cmd g)) = total_cards g
        \<and> length (game_players (snd (execute sh cmd g))) = length (game_players g))"
proof (cases cmd)
  case (Join name)
  show ?thesis
  proof (cases "join name g")
    case (Inl e)
    with Join show ?thesis by (simp add: execute_def)
  next
    case (Inr r)
    obtain pid g' where r: "r = (pid, g')" by (cases r)
    from join_Inr [of name g pid g'] Inr r Join show ?thesis
      by (simp add: execute_def)
  qed
next
  case Start
  show ?thesis
  proof (cases "start sh g")
    case (Inl e)
    with Start show ?thesis by (simp add: execute_def)
  next
    case (Inr g')
    show ?thesis
    proof (cases "state g = WAITING")
      case True
      from start_WAITING [OF Inr True assms] Inr Start True show ?thesis
        by (simp add: execute_def)
    next
      case False
      with Inr have "g' = g"
        by (cases "state g") (simp_all add: start_def)
      with Inr Start show ?thesis by (simp add: execute_def)
    qed
  qed
next
  case (PlayCard pid c ds)
  show ?thesis
  proof (cases "play pid c ds g")
    case (Inl e)
    with PlayCard show ?thesis by (simp add: execute_def)
  next
    case (Inr g')
    from play_Inr [OF Inr] Inr PlayCard show ?thesis
      by (simp add: execute_def)
  qed
next
  case (DrawCard pid)
  show ?thesis
  proof (cases "drawCard sh pid g")
    case (Inl e)
    with DrawCard show ?thesis by (simp add: execute_def)
  next
    case (Inr g')
    from drawCard_Inr [OF Inr assms] Inr DrawCard show ?thesis
      by (simp add: execute_def)
  qed
qed

text \<open>
  Before the deal no card is in play; from the deal on there are 52, and two players.
\<close>

lemma reachable_invariant:
  assumes "reachable g"
  shows "length (game_players g) \<le> 2
    \<and> (state g = WAITING \<longrightarrow> total_cards g = 0)
    \<and> (state g \<noteq> WAITING \<longrightarrow> total_cards g = 52 \<and> length (game_players g) = 2)"
  using assms
proof (induction rule: reachable.induct)
  case (created gid)
  show ?case by (simp add: create_def total_cards_def)
next
  case (executed g sh cmd)
  from executed.IH have dp: "state g = WAITING \<Longrightarrow> length (drawPile g) = 0"
    by (simp add: total_cards_def)
  from execute_effect [OF executed.hyps(2), of cmd g] executed.IH dp show ?case
    by (elim disjE) auto
qed

lemma reachable_run: "reachable g \<Longrightarrow> is_shuffle sh \<Longrightarrow> reachable (run sh cmds g)"
  by (induction cmds arbitrary: g) (auto intro: reachable.executed)

lemma sample_state:
  "state (run (\<lambda>xs. xs) [Join ''Alice'', Join ''Bob'', Start] (create 0)) = ACTIVE"
  by code_simp

lemma sample_current:
  "currentPlayerId (run (\<lambda>xs. xs) [Join ''Alice'', Join ''Bob'', Start] (create 0)) = Some 1"
  by code_simp

lemma execute_not_start:
  assumes "is_shuffle sh" and "cmd \<noteq> Start"
  shows "total_cards (snd (execute sh cmd g)) = total_cards g"
proof (cases cmd)
  case (Join name)
  show ?thesis
  proof (cases "join name g")
    case (Inl e)
    with Join show ?thesis by (simp add: execute_def)
  next
    case (Inr r)
    obtain pid g' where "r = (pid, g')" by (cases r)
    with join_Inr [of name g pid g'] Inr Join show ?thesis
      by (simp add: execute_def)
  qed
next
  case Start
  with assms(2) show ?thesis by simp
next
  case (PlayCard pid c ds)
  show ?thesis
  proof (cases "play pid c ds g")
    case (Inl e)
    with PlayCard show ?thesis by (simp add: execute_def)
  next
    case (Inr g')
    from play_Inr [OF Inr] Inr PlayCard show ?thesis
      by (simp add: execute_def)
  qed
next
  case (DrawCard pid)
  show ?thesis
  proof (cases "drawCard sh pid g")
    case (Inl e)
    with DrawCard show ?thesis by (simp add: execute_def)
  next
    case (Inr g')
    from drawCard_Inr [OF Inr assms(1)] Inr DrawCard show ?thesis
      by (simp add: execute_def)
  qed
qed

lemma execute_dealt:
  assumes "reachable g" and "is_shuffle sh" and "state g \<noteq> WAITING"
  shows "total_cards g = 52
    \<and> total_cards (snd (execute sh cmd g)) = total_cards g
    \<and> state (snd (execute sh cmd g)) \<noteq> WAITING"
proof -
  from reachable_invariant [OF assms(1)] assms(3) have t: "total_cards g = 52" by simp
  from execute_effect [OF assms(2), of cmd g] assms(3) t show ?thesis
    by (elim disjE) auto
qed

text \<open>
  C2. For every game state reachable from a freshly created game by any sequence of
  join, start, play and drawCard: once the cards are dealt (the game has left WAITING)
  the sum of the draw pile's, the discard pile's and the hands' sizes is 52, and no
  operation changes it from then on, whether it succeeds or is rejected; nor does the
  game return to WAITING. Before the deal the only operation that changes the sum is the
  start that deals.
\<close>

theorem card_conservation:
  assumes "reachable g" and "is_shuffle sh"
  shows "(state g \<noteq> WAITING \<longrightarrow>
            total_cards g = 52
            \<and> total_cards (snd (execute sh cmd g)) = total_cards g
            \<and> state (snd (execute sh cmd g)) \<noteq> WAITING)
    \<and> (cmd \<noteq> Start \<longrightarrow> total_cards (snd (execute sh cmd g)) = total_cards g)"
  using execute_dealt [OF assms, of cmd] execute_not_start [OF assms(2), of cmd g]
  by blast

theorem card_conservation_witness:
  "state (run (\<lambda>xs. xs) [Join ''Alice'', Join ''Bob'', Start] (create 0)) = ACTIVE
   \<and> total_cards (run (\<lambda>xs. xs) [Join ''Alice'', Join ''Bob'', Start] (create 0)) = 52
   \<and> total_cards (snd (execute (\<lambda>xs. xs) (DrawCard 1)
        (run (\<lambda>xs. xs) [Join ''Alice'', Join ''Bob'', Start] (create 0)))) = 52"
proof -
  let ?g = "run (\<lambda>xs. xs) [Join ''Alice'', Join ''Bob'', Start] (create 0)"
  have r: "reachable ?g"
    by (rule reachable_run [OF reachable.created is_shuffle_id])
  have a: "state ?g = ACTIVE" by (rule sample_state)
  then have w: "state ?g \<noteq> WAITING" by simp
  from card_conservation [OF r is_shuffle_id, of "DrawCard 1"] a w show ?thesis
    by simp
qed

section \<open>The engine: turns\<close>

lemma not_current_play:
  "state g = ACTIVE \<Longrightarrow> currentPlayerId g \<noteq> Some pid \<Longrightarrow> play pid c ds g = Inl NotYourTurn"
  by (auto simp: play_def currentPlayerId_def split: option.splits)

lemma not_current_draw:
  "state g = ACTIVE \<Longrightarrow> currentPlayerId g \<noteq> Some pid \<Longrightarrow> drawCard sh pid g = Inl NotYourTurn"
  by (auto simp: drawCard_def currentPlayerId_def split: option.splits)

text \<open>
  C5. In every ACTIVE game, a PlayCard or a DrawCard from a player whose id is not the
  current player's id fails with \<open>NotYourTurn\<close>, and the game after the command is the
  game before it, field for field.
\<close>

theorem turn_exclusivity:
  assumes "state g = ACTIVE" and "currentPlayerId g \<noteq> Some pid"
  shows "play pid c ds g = Inl NotYourTurn
    \<and> drawCard sh pid g = Inl NotYourTurn
    \<and> execute sh (PlayCard pid c ds) g = (Some NotYourTurn, g)
    \<and> execute sh (DrawCard pid) g = (Some NotYourTurn, g)"
  using not_current_play [OF assms, of c ds] not_current_draw [OF assms, of sh]
  by (simp add: execute_def)

theorem turn_exclusivity_witness:
  "state (run (\<lambda>xs. xs) [Join ''Alice'', Join ''Bob'', Start] (create 0)) = ACTIVE
   \<and> currentPlayerId (run (\<lambda>xs. xs) [Join ''Alice'', Join ''Bob'', Start] (create 0)) = Some 1
   \<and> execute (\<lambda>xs. xs) (PlayCard 2 (PlayingCard R8 Hearts) (Some Spades))
        (run (\<lambda>xs. xs) [Join ''Alice'', Join ''Bob'', Start] (create 0))
      = (Some NotYourTurn, run (\<lambda>xs. xs) [Join ''Alice'', Join ''Bob'', Start] (create 0))
   \<and> execute (\<lambda>xs. xs) (DrawCard 2)
        (run (\<lambda>xs. xs) [Join ''Alice'', Join ''Bob'', Start] (create 0))
      = (Some NotYourTurn, run (\<lambda>xs. xs) [Join ''Alice'', Join ''Bob'', Start] (create 0))"
proof -
  let ?g = "run (\<lambda>xs. xs) [Join ''Alice'', Join ''Bob'', Start] (create 0)"
  have a: "state ?g = ACTIVE" by (rule sample_state)
  have c: "currentPlayerId ?g = Some 1" by (rule sample_current)
  then have n: "currentPlayerId ?g \<noteq> Some 2" by simp
  from turn_exclusivity [OF a n, of "PlayingCard R8 Hearts" "Some Spades" "\<lambda>xs. xs"] a c
  show ?thesis by simp
qed

section \<open>The engine: starting, and playing an eight\<close>

lemma start_not_enough:
  assumes "reachable g" and "length (game_players g) < 2"
  shows "start sh g = Inl NotEnoughPlayers"
proof -
  from reachable_invariant [OF assms(1)] assms(2) have "state g = WAITING"
    by (cases "state g") auto
  with assms(2) show ?thesis by (simp add: start_def)
qed

lemma start_changes_only_waiting_two:
  assumes "reachable g" and "start sh g = Inr g'" and "g' \<noteq> g"
  shows "state g = WAITING \<and> length (game_players g) = 2"
proof -
  from assms(2,3) have w: "state g = WAITING"
    by (cases "state g") (simp_all add: start_def)
  with assms(2) have "\<not> length (game_players g) < 2"
    by (auto simp: start_def split: if_splits)
  with reachable_invariant [OF assms(1)] w show ?thesis by simp
qed

lemma deal_two:
  assumes "length d \<ge> 14"
  shows "\<exists>ps d'. deal [p, q] d = Inr (ps, d') \<and> length d' + 14 = length d"
  using assms by (simp add: deck_draw_def)

lemma start_two_succeeds:
  assumes "state g = WAITING" and "length (game_players g) = 2" and "is_shuffle sh"
  shows "\<exists>g'. start sh g = Inr g' \<and> state g' = ACTIVE \<and> currentPlayerIndex g' = 0"
proof -
  from assms(2) obtain p q where pq: "game_players g = [p, q]"
    by (cases "game_players g"; cases "tl (game_players g)") auto
  have len: "length (newShuffledDeck sh) = 52"
    using assms(3) by (simp add: newShuffledDeck_def is_shuffle_length length_full_deck)
  then obtain ps d where dl: "deal [p, q] (newShuffledDeck sh) = Inr (ps, d)"
    and ld: "length d + 14 = length (newShuffledDeck sh)"
    using deal_two [of "newShuffledDeck sh" p q] by auto
  from ld len have "\<not> length d < 1" by simp
  with dl pq assms(1) show ?thesis
    by (simp add: start_def deck_draw_def)
qed

lemma eight_without_suit:
  assumes "state g = ACTIVE" and "current_player g = Some p" and "player_id p = pid"
    and "c \<in> set (player_hand p)" and "rankOf c = R8"
  shows "play pid c None g = Inl MissingDeclaredSuit"
  using assms by (simp add: play_def)

lemma eight_with_suit:
  assumes "state g = ACTIVE" and "current_player g = Some p" and "player_id p = pid"
    and "c \<in> set (player_hand p)" and "rankOf c = R8"
  shows "play pid c (Some s) g = Inr (apply_play pid c (Some s) g)
     \<and> activeSuit (apply_play pid c (Some s) g) = Some s"
  using assms by (simp add: play_def apply_play_def Let_def)

lemma start_button_iff:
  "(case waiting_render l ps of WaitingLoading \<Rightarrow> False | WaitingList _ b \<Rightarrow> b)
   = (\<not> l \<and> length ps = 2)"
  by (simp add: waiting_render_def)

lemma start_request_needs_two:
  assumes "Sent (PostStart x) \<in> set (fst (handleStartGame gs sr r))"
  shows "\<exists>a v ps. gs = Some a \<and> x = gameId a \<and> sr = Response True v
    \<and> view.players v = Some ps \<and> 2 \<le> length ps"
  using assms
  by (auto simp: handleStartGame_def split: option.splits fetched.splits if_splits)

lemma tag_ignored:
  "boardState_of (u\<lparr>msg_type := t\<rparr>) = boardState_of u
   \<and> board_onmessage (u\<lparr>msg_type := t\<rparr>) st = board_onmessage u st
   \<and> waiting_onmessage (u\<lparr>msg_type := t\<rparr>) ps = waiting_onmessage u ps"
  by (simp add: boardState_of_def board_onmessage_def waiting_onmessage_def)

section \<open>Who may act on the board\<close>

text \<open>
  C9. The board offers the mutating actions only to the player whose turn it is. For
  every rendered game state whose \<open>current_player_id\<close> is not the viewing player's id,
  the draw pile has no click handler and the action area (Play Card, the suit selector
  and Play 8) is not rendered; no event on the board, and no sequence of events, sends a
  play or a draw request.
\<close>

theorem board_actions_only_for_current_player:
  assumes "gameState st = Some gs" and "current_player_id gs \<noteq> Some pid"
  shows "(case render pid st of
            Board v \<Rightarrow> deck_onClick v = None \<and> actions v = None
          | _ \<Rightarrow> True)
    \<and> snd (fire gid pid ev st) = []
    \<and> snd (fire_all gid pid evs st) = []"
  using render_not_current [OF assms] fire_not_current [OF assms, of gid ev]
    fire_all_not_current [OF assms, of gid evs]
  by auto

theorem board_actions_only_for_current_player_witness:
  "render (ascii ''p1'')
     \<lparr>gameState = Some \<lparr>players = None, your_hand = None, top_card = Some (ascii ''7'' @ clubs),
                         active_suit = None, current_player_id = Some (ascii ''p2''),
                         winner_id = None\<rparr>,
      hand = [\<lparr>suit = diamonds, rank = ascii ''7''\<rparr>],
      selectedCard = Some \<lparr>suit = diamonds, rank = ascii ''7''\<rparr>,
      declaredSuit = None, loading = False\<rparr>
   = Board \<lparr>deck_onClick = None, actions = None\<rparr>
   \<and> snd (fire_all (ascii ''g1'') (ascii ''p1'') [ClickCard 0, ClickPlay (Response True ()), ClickDeck]
     \<lparr>gameState = Some \<lparr>players = None, your_hand = None, top_card = Some (ascii ''7'' @ clubs),
                         active_suit = None, current_player_id = Some (ascii ''p2''),
                         winner_id = None\<rparr>,
      hand = [\<lparr>suit = diamonds, rank = ascii ''7''\<rparr>],
      selectedCard = Some \<lparr>suit = diamonds, rank = ascii ''7''\<rparr>,
      declaredSuit = None, loading = False\<rparr>) = []"
proof -
  let ?gs = "\<lparr>players = None, your_hand = None, top_card = Some (ascii ''7'' @ clubs),
              active_suit = None, current_player_id = Some (ascii ''p2''), winner_id = None\<rparr>"
  let ?st = "\<lparr>gameState = Some ?gs, hand = [\<lparr>suit = diamonds, rank = ascii ''7''\<rparr>],
              selectedCard = Some \<lparr>suit = diamonds, rank = ascii ''7''\<rparr>,
              declaredSuit = None, loading = False\<rparr>"
  have a: "gameState ?st = Some ?gs" by simp
  have b: "current_player_id ?gs \<noteq> Some (ascii ''p1'')" by (simp add: ascii_def)
  have r: "render (ascii ''p1'') ?st = Board \<lparr>deck_onClick = None, actions = None\<rparr>"
    using b by (simp add: render_def isCurrentPlayer_def)
  from board_actions_only_for_current_player
    [OF a b, of "ascii ''g1''" ClickDeck "[ClickCard 0, ClickPlay (Response True ()), ClickDeck]"] r
  show ?thesis by simp
qed

section \<open>An eight needs a declared suit\<close>

text \<open>
  The declared suit of a play request follows the rank string of the selected card. If
  that string is \<open>8\<close>, the request carries a non-empty declared suit, and while no suit
  is chosen the Play 8 button is disabled; for any other rank string the submitted
  \<open>declared_suit\<close> is \<open>null\<close>. In the engine, the current player's play of an eight from
  their hand without a declared suit fails with \<open>MissingDeclaredSuit\<close> and leaves the
  game as it was.
\<close>

lemma declared_suit_by_rank_string:
  "(\<forall>b. PostPlay gid pid b \<in> set (snd (fire gid pid ev st)) \<longrightarrow>
      (\<exists>sel. selectedCard st = Some sel \<and> card_field b = cardString sel
         \<and> (if rank sel = ascii ''8''
             then js_truthy (declared_suit b) \<and> declared_suit b = declaredSuit st
             else declared_suit b = None)))
   \<and> (\<forall>v sel. render pid st = Board v \<and> selectedCard st = Some sel \<and> rank sel = ascii ''8''
         \<and> \<not> js_truthy (declaredSuit st)
       \<longrightarrow> actions v = None \<or> (\<exists>x. actions v = Some (SuitSelector x True)))
   \<and> (state g = ACTIVE \<and> current_player g = Some p \<and> c \<in> set (player_hand p) \<and> rankOf c = R8
       \<longrightarrow> play (player_id p) c None g = Inl MissingDeclaredSuit
         \<and> execute sh (PlayCard (player_id p) c None) g = (Some MissingDeclaredSuit, g))"
proof (intro conjI allI impI)
  fix b
  assume "PostPlay gid pid b \<in> set (snd (fire gid pid ev st))"
  from fire_play_request [OF this]
  show "\<exists>sel. selectedCard st = Some sel \<and> card_field b = cardString sel
         \<and> (if rank sel = ascii ''8''
             then js_truthy (declared_suit b) \<and> declared_suit b = declaredSuit st
             else declared_suit b = None)"
    by (auto split: if_splits)
next
  fix v sel
  assume "render pid st = Board v \<and> selectedCard st = Some sel \<and> rank sel = ascii ''8''
         \<and> \<not> js_truthy (declaredSuit st)"
  with render_eight_disabled [of pid st v sel]
  show "actions v = None \<or> (\<exists>x. actions v = Some (SuitSelector x True))"
    by auto
next
  assume h: "state g = ACTIVE \<and> current_player g = Some p \<and> c \<in> set (player_hand p)
    \<and> rankOf c = R8"
  then show "play (player_id p) c None g = Inl MissingDeclaredSuit"
    by (simp add: eight_without_suit)
  with h show "execute sh (PlayCard (player_id p) c None) g = (Some MissingDeclaredSuit, g)"
    by (simp add: execute_def)
qed

lemma sample_eight_in_hand:
  "(case current_player (run rev [Join ''Alice'', Join ''Bob'', Start] (create 0)) of
      None \<Rightarrow> False
    | Some p \<Rightarrow> player_id p = 1 \<and> PlayingCard R8 Spades \<in> set (player_hand p))
   \<and> state (run rev [Join ''Alice'', Join ''Bob'', Start] (create 0)) = ACTIVE"
  by code_simp

lemma declared_suit_by_rank_string_example:
  "snd (fire (ascii ''g1'') (ascii ''p1'') (ClickPlay (Response True ()))
     \<lparr>gameState = Some \<lparr>players = None, your_hand = None, top_card = Some (ascii ''7'' @ clubs),
                         active_suit = None, current_player_id = Some (ascii ''p1''),
                         winner_id = None\<rparr>,
      hand = [\<lparr>suit = hearts, rank = ascii ''8''\<rparr>],
      selectedCard = Some \<lparr>suit = hearts, rank = ascii ''8''\<rparr>,
      declaredSuit = Some spades, loading = False\<rparr>)
   = [PostPlay (ascii ''g1'') (ascii ''p1'')
        \<lparr>card_field = ascii ''8'' @ hearts, declared_suit = Some spades\<rparr>]
   \<and> js_truthy (Some spades)
   \<and> render (ascii ''p1'')
     \<lparr>gameState = Some \<lparr>players = None, your_hand = None, top_card = Some (ascii ''7'' @ clubs),
                         active_suit = None, current_player_id = Some (ascii ''p1''),
                         winner_id = None\<rparr>,
      hand = [\<lparr>suit = hearts, rank = ascii ''8''\<rparr>],
      selectedCard = Some \<lparr>suit = hearts, rank = ascii ''8''\<rparr>,
      declaredSuit = None, loading = False\<rparr>
   = Board \<lparr>deck_onClick = Some HandleDrawCard, actions = Some (SuitSelector [] True)\<rparr>
   \<and> state (run rev [Join ''Alice'', Join ''Bob'', Start] (create 0)) = ACTIVE
   \<and> execute rev (PlayCard 1 (PlayingCard R8 Spades) None)
        (run rev [Join ''Alice'', Join ''Bob'', Start] (create 0))
      = (Some MissingDeclaredSuit, run rev [Join ''Alice'', Join ''Bob'', Start] (create 0))"
proof -
  let ?gs = "\<lparr>players = None, your_hand = None, top_card = Some (ascii ''7'' @ clubs),
              active_suit = None, current_player_id = Some (ascii ''p1''), winner_id = None\<rparr>"
  let ?st = "\<lambda>d. \<lparr>gameState = Some ?gs, hand = [\<lparr>suit = hearts, rank = ascii ''8''\<rparr>],
              selectedCard = Some \<lparr>suit = hearts, rank = ascii ''8''\<rparr>,
              declaredSuit = d, loading = False\<rparr>"
  let ?g = "run rev [Join ''Alice'', Join ''Bob'', Start] (create 0)"
  have f: "snd (fire (ascii ''g1'') (ascii ''p1'') (ClickPlay (Response True ())) (?st (Some spades)))
    = [PostPlay (ascii ''g1'') (ascii ''p1'')
        \<lparr>card_field = ascii ''8'' @ hearts, declared_suit = Some spades\<rparr>]"
    by (simp add: fire_def render_def isCurrentPlayer_def clickPlay_def handlePlayCard_def
        spades_def)
  have r: "render (ascii ''p1'') (?st None)
    = Board \<lparr>deck_onClick = Some HandleDrawCard, actions = Some (SuitSelector [] True)\<rparr>"
    by (simp add: render_def isCurrentPlayer_def)
  from sample_eight_in_hand obtain p where
    p: "current_player ?g = Some p" "player_id p = 1" "PlayingCard R8 Spades \<in> set (player_hand p)"
    and a: "state ?g = ACTIVE"
    by (auto split: option.splits)
  from declared_suit_by_rank_string
    [of "ascii ''g1''" "ascii ''p1''" "ClickPlay (Response True ())" "?st (Some spades)" ?g p "PlayingCard R8 Spades" rev]
    f r p a
  show ?thesis by (simp add: spades_def)
qed

text \<open>
  C4. The claim: a play of an eight cannot be submitted without a declared suit, the
  Play 8 action being disabled until a suit is chosen. The code does submit one. The
  server's update gives the current player the hand \<open>8\<close> followed by U+2665, the eight
  of hearts; \<open>parseCard\<close> reads it as a card whose rank string is not \<open>8\<close>; the player
  selects it and clicks Play Card, which is enabled, and the board posts the eight of
  hearts with \<open>declared_suit\<close> \<open>null\<close>.
\<close>

theorem eight_posted_without_suit:
  "snd (fire_all (ascii ''g1'') (ascii ''p1'') [ClickCard 0, ClickPlay (Response True ())]
     (board_onmessage
        \<lparr>msg_type = ascii ''PlayerView'',
         data = Some
           \<lparr>players = None, your_hand = None, top_card = None, active_suit = None,
            current_player_id = None, winner_id = None,
            player_state = Some
              \<lparr>players = None, your_hand = Some [ascii ''8'' @ [0x2665]],
               top_card = Some (ascii ''7'' @ [0x2663]), active_suit = None,
               current_player_id = Some (ascii ''p1''), winner_id = None\<rparr>,
            game_state = None\<rparr>\<rparr>
        \<lparr>gameState = None, hand = [], selectedCard = None, declaredSuit = None,
         loading = True\<rparr>))
   = [PostPlay (ascii ''g1'') (ascii ''p1'')
        \<lparr>card_field = ascii ''8'' @ [0x2665], declared_suit = None\<rparr>]"
proof -
  have "ascii ''8'' \<in> set ranks" by (simp add: ranks_def)
  moreover have "[0x2665] \<in> set suit_symbols" by (simp add: suit_symbols_def)
  ultimately have p8:
    "parseCard (ascii ''8'' @ [0x2665]) = \<lparr>suit = [], rank = ascii ''8'' @ [0x2665]\<rparr>"
    by (rule parseCard_symbol_cards)
  from p8 show ?thesis
    by (simp add: board_onmessage_def boardState_of_def parseHand_def fire_def render_def
        isCurrentPlayer_def clickPlay_def handlePlayCard_def playResponse_def ascii_def Let_def)
qed

section \<open>Starting the game\<close>

text \<open>
  C6. Start takes effect only in WAITING with exactly 2 players seated, and fails with
  \<open>NotEnoughPlayers\<close> when fewer than 2 are seated; with exactly 2 seated in WAITING it
  succeeds and the game is ACTIVE. On the client, the waiting room shows the start
  button exactly when it has loaded and its player list has 2 entries, and
  \<open>handleStartGame\<close> sends the start request only after a state read that succeeded
  and listed at least 2 players.
\<close>

theorem start_requires_two_players:
  assumes "reachable g" and "is_shuffle sh"
  shows "(length (game_players g) < 2 \<longrightarrow> start sh g = Inl NotEnoughPlayers)
    \<and> (\<forall>g'. start sh g = Inr g' \<and> g' \<noteq> g
          \<longrightarrow> state g = WAITING \<and> length (game_players g) = 2)
    \<and> (state g = WAITING \<and> length (game_players g) = 2
          \<longrightarrow> (\<exists>g'. start sh g = Inr g' \<and> state g' = ACTIVE))
    \<and> (case waiting_render l ps of WaitingLoading \<Rightarrow> False | WaitingList _ b \<Rightarrow> b)
        = (\<not> l \<and> length ps = 2)
    \<and> (\<forall>x. Sent (PostStart x) \<in> set (fst (handleStartGame gs sr r))
          \<longrightarrow> (\<exists>a v ps'. gs = Some a \<and> x = gameId a \<and> sr = Response True v
                \<and> view.players v = Some ps' \<and> 2 \<le> length ps'))"
proof (intro conjI allI impI)
  assume "length (game_players g) < 2"
  with assms(1) show "start sh g = Inl NotEnoughPlayers" by (rule start_not_enough)
next
  fix g'
  assume "start sh g = Inr g' \<and> g' \<noteq> g"
  with start_changes_only_waiting_two [OF assms(1), of sh g']
  show "state g = WAITING" and "length (game_players g) = 2" by simp_all
next
  assume "state g = WAITING \<and> length (game_players g) = 2"
  with start_two_succeeds [of g sh] assms(2)
  show "\<exists>g'. start sh g = Inr g' \<and> state g' = ACTIVE" by auto
next
  show "(case waiting_render l ps of WaitingLoading \<Rightarrow> False | WaitingList _ b \<Rightarrow> b)
        = (\<not> l \<and> length ps = 2)"
    by (rule start_button_iff)
next
  fix x
  assume "Sent (PostStart x) \<in> set (fst (handleStartGame gs sr r))"
  then show "\<exists>a v ps'. gs = Some a \<and> x = gameId a \<and> sr = Response True v
                \<and> view.players v = Some ps' \<and> 2 \<le> length ps'"
    by (rule start_request_needs_two)
qed

lemma sample_one_seated:
  "length (game_players (run (\<lambda>xs. xs) [Join ''Alice''] (create 0))) = 1"
  by code_simp

theorem start_requires_two_players_witness:
  "length (game_players (run (\<lambda>xs. xs) [Join ''Alice''] (create 0))) < 2
   \<and> start (\<lambda>xs. xs) (run (\<lambda>xs. xs) [Join ''Alice''] (create 0)) = Inl NotEnoughPlayers
   \<and> waiting_render False [\<lparr>p_id = ascii ''p1'', p_name = ascii ''Alice''\<rparr>]
       = WaitingList [\<lparr>p_id = ascii ''p1'', p_name = ascii ''Alice''\<rparr>] False
   \<and> fst (handleStartGame
       (Some \<lparr>gameId = ascii ''g1'', playerId = ascii ''p1'', playerName = ascii ''Alice'',
              phase = PhaseWaiting\<rparr>)
       (Response True
          \<lparr>players = Some [\<lparr>p_id = ascii ''p1'', p_name = ascii ''Alice''\<rparr>],
           your_hand = None, top_card = None, active_suit = None,
           current_player_id = None, winner_id = None\<rparr>)
       (Response True ()))
     = [Sent (GetState (ascii ''g1'') (ascii ''p1'')), Alerted NeedTwoPlayers]"
proof -
  let ?g = "run (\<lambda>xs. xs) [Join ''Alice''] (create 0)"
  have r: "reachable ?g"
    by (rule reachable_run [OF reachable.created is_shuffle_id])
  have l: "length (game_players ?g) < 2" using sample_one_seated by simp
  have w: "waiting_render False [\<lparr>p_id = ascii ''p1'', p_name = ascii ''Alice''\<rparr>]
       = WaitingList [\<lparr>p_id = ascii ''p1'', p_name = ascii ''Alice''\<rparr>] False"
    by (simp add: waiting_render_def)
  have h: "fst (handleStartGame
       (Some \<lparr>gameId = ascii ''g1'', playerId = ascii ''p1'', playerName = ascii ''Alice'',
              phase = PhaseWaiting\<rparr>)
       (Response True
          \<lparr>players = Some [\<lparr>p_id = ascii ''p1'', p_name = ascii ''Alice''\<rparr>],
           your_hand = None, top_card = None, active_suit = None,
           current_player_id = None, winner_id = None\<rparr>)
       (Response True ()))
     = [Sent (GetState (ascii ''g1'') (ascii ''p1'')), Alerted NeedTwoPlayers]"
    by (simp add: handleStartGame_def)
  from start_requires_two_players [OF r is_shuffle_id] l w h
  show ?thesis by simp
qed

section \<open>Update messages and their tag\<close>

text \<open>
  The claim C3 as stated: update messages are a tagged variant, and the consumers
  dispatch on the tag instead of probing the payload. It fails on a message tagged
  \<open>PublicView\<close> whose payload carries both a \<open>player_state\<close> and a \<open>game_state\<close>: the
  board takes the player state, where the tag names the public view.
\<close>

theorem tag_dispatch_counterexample:
  "gameState (board_onmessage
      \<lparr>msg_type = ascii ''PublicView'',
       data = Some
         \<lparr>players = None, your_hand = None, top_card = None, active_suit = None,
          current_player_id = None, winner_id = None,
          player_state = Some
            \<lparr>players = None, your_hand = Some [ascii ''5'' @ diamonds],
             top_card = Some (ascii ''7'' @ clubs), active_suit = None,
             current_player_id = None, winner_id = None\<rparr>,
          game_state = Some
            \<lparr>players = None, your_hand = None,
             top_card = Some (ascii ''7'' @ clubs), active_suit = None,
             current_player_id = None, winner_id = None\<rparr>\<rparr>\<rparr>
      \<lparr>gameState = None, hand = [], selectedCard = None, declaredSuit = None, loading = True\<rparr>)
   \<noteq> dispatch_on_tag
      \<lparr>msg_type = ascii ''PublicView'',
       data = Some
         \<lparr>players = None, your_hand = None, top_card = None, active_suit = None,
          current_player_id = None, winner_id = None,
          player_state = Some
            \<lparr>players = None, your_hand = Some [ascii ''5'' @ diamonds],
             top_card = Some (ascii ''7'' @ clubs), active_suit = None,
             current_player_id = None, winner_id = None\<rparr>,
          game_state = Some
            \<lparr>players = None, your_hand = None,
             top_card = Some (ascii ''7'' @ clubs), active_suit = None,
             current_player_id = None, winner_id = None\<rparr>\<rparr>\<rparr>"
  by (simp add: board_onmessage_def boardState_of_def dispatch_on_tag_def Let_def ascii_def)

lemma board_onmessage_gameState: "gameState (board_onmessage u st) = Some (boardState_of u)"
  by (simp add: board_onmessage_def Let_def)

lemma boardState_of_probe:
  "boardState_of u =
     (case data u of
        None \<Rightarrow> view.truncate empty_object
      | Some d \<Rightarrow>
          (case player_state d of
             Some p \<Rightarrow> p
           | None \<Rightarrow> (case game_state d of Some g \<Rightarrow> g | None \<Rightarrow> view.truncate d)))"
  by (simp add: boardState_of_def empty_object_def split: option.splits)

text \<open>
  C3, amended. An update message carries a type tag beside its data, and neither
  consumer reads it: for every update message, the board and the waiting room take the
  view by probing the payload, \<open>player_state\<close> if it is there, else \<open>game_state\<close> if it is
  there, else the payload itself, and the outcome is the same whatever the tag is.
\<close>

theorem update_tag_not_read:
  "board_onmessage (u\<lparr>msg_type := t\<rparr>) st = board_onmessage u st
   \<and> waiting_onmessage (u\<lparr>msg_type := t\<rparr>) ps = waiting_onmessage u ps
   \<and> gameState (board_onmessage u st) = Some (boardState_of u)
   \<and> waiting_onmessage u ps
       = (case view.players (boardState_of u) of None \<Rightarrow> ps | Some ps' \<Rightarrow> ps')
   \<and> boardState_of u =
       (case data u of
          None \<Rightarrow> view.truncate empty_object
        | Some d \<Rightarrow>
            (case player_state d of
               Some p \<Rightarrow> p
             | None \<Rightarrow> (case game_state d of Some g \<Rightarrow> g | None \<Rightarrow> view.truncate d)))"
proof -
  have "waiting_onmessage u ps
       = (case view.players (boardState_of u) of None \<Rightarrow> ps | Some ps' \<Rightarrow> ps')"
    by (simp add: waiting_onmessage_def)
  with tag_ignored [where u = u and t = t and st = st and ps = ps]
    board_onmessage_gameState [of u st] boardState_of_probe [of u]
  show ?thesis by simp
qed

end
